theory Spec2Isabelle
  imports Main "HOL-Library.AList"
begin

section \<open>The prepare command of coolpack (cmd/coolpack/prepare.go)\<close>

text \<open>
  The command loads a build plan from a plan file or from detection, applies the
  overrides given on the command line and in the process environment, and hands the
  resolved plan to the generator.  The overlay functions mutate the plan through a
  pointer; here each one takes the plan and returns the updated plan.  The process
  environment is a read-only map from variable names to values.
\<close>

subsection \<open>Data model\<close>

text \<open>
  A Go value of type \<open>interface{}\<close>, as the metadata map holds it.  The code
  distinguishes strings, \<open>[]interface{}\<close> (what the JSON decoder yields for an
  array) and \<open>[]string\<close> (what the overlay itself stores); the other dynamic
  types are kept apart from these.  The code never looks into a number, so the integer
  under \<open>INum\<close> only tells numbers apart.
\<close>

datatype iface =
    INil
  | IBool bool
  | INum int
  | IString string
  | IList "iface list"
  | IStrings "string list"
  | IObject "(string \<times> iface) list"

text \<open>
  Modelled from the spec: the struct \<open>app.Plan\<close> (also reached as
  \<open>detector.Plan\<close>) is declared in pkg/app, which is not among the sources.  Its
  fields are those of the plan model of the specification, under the Go names that
  prepare.go uses.  A Go map may be nil: \<open>None\<close> is the nil map.  The functions
  below work on every extension of the record, so further fields of the struct are
  carried along unchanged.
\<close>

record Plan =
  Language :: string
  PackageManager :: string
  InstallCommand :: string
  BuildCommand :: string
  StartCommand :: string
  BuildEnv :: "(string \<rightharpoonup> string) option"
  Metadata :: "(string \<rightharpoonup> iface) option"

type_synonym environ = "string \<rightharpoonup> string"

text \<open>\<open>os.LookupEnv\<close> is the lookup in the environment; \<open>os.Getenv\<close> returns the
  empty string for a variable that is not set.\<close>

definition os_Getenv :: "environ \<Rightarrow> string \<Rightarrow> string" where
  "os_Getenv env k = (case env k of None \<Rightarrow> [] | Some v \<Rightarrow> v)"

text \<open>Reading a map that may be nil: a nil map reads as the empty map.\<close>

definition metadataOf :: "'a Plan_scheme \<Rightarrow> (string \<rightharpoonup> iface)" where
  "metadataOf plan = (case Metadata plan of None \<Rightarrow> Map.empty | Some m \<Rightarrow> m)"

subsection \<open>Scalar overrides\<close>

definition prepareApplyCommandOverrides ::
  "environ \<Rightarrow> 'a Plan_scheme \<Rightarrow> string \<Rightarrow> string \<Rightarrow> string \<Rightarrow> 'a Plan_scheme" where
  "prepareApplyCommandOverrides env plan installCmd buildCmd startCmd =
    (let plan1 =
           (if installCmd \<noteq> [] then plan\<lparr>InstallCommand := installCmd\<rparr>
            else if os_Getenv env ''COOLPACK_INSTALL_CMD'' \<noteq> []
              then plan\<lparr>InstallCommand := os_Getenv env ''COOLPACK_INSTALL_CMD''\<rparr>
            else plan);
         plan2 =
           (if buildCmd \<noteq> [] then plan1\<lparr>BuildCommand := buildCmd\<rparr>
            else if os_Getenv env ''COOLPACK_BUILD_CMD'' \<noteq> []
              then plan1\<lparr>BuildCommand := os_Getenv env ''COOLPACK_BUILD_CMD''\<rparr>
            else plan1)
     in (if startCmd \<noteq> [] then plan2\<lparr>StartCommand := startCmd\<rparr>
         else if os_Getenv env ''COOLPACK_START_CMD'' \<noteq> []
           then plan2\<lparr>StartCommand := os_Getenv env ''COOLPACK_START_CMD''\<rparr>
         else plan2))"

definition prepareApplyStaticServerSetting ::
  "environ \<Rightarrow> 'a Plan_scheme \<Rightarrow> string \<Rightarrow> 'a Plan_scheme" where
  "prepareApplyStaticServerSetting env plan staticServer =
    (let md = (case Metadata plan of None \<Rightarrow> Map.empty | Some m \<Rightarrow> m)
     in if staticServer \<noteq> []
          then plan\<lparr>Metadata := Some (md(''static_server'' \<mapsto> IString staticServer))\<rparr>
        else if os_Getenv env ''COOLPACK_STATIC_SERVER'' \<noteq> []
          then plan\<lparr>Metadata := Some (md(''static_server'' \<mapsto>
                    IString (os_Getenv env ''COOLPACK_STATIC_SERVER'')))\<rparr>
        else plan\<lparr>Metadata := Some md\<rparr>)"

definition prepareApplyOutputDirSetting ::
  "environ \<Rightarrow> 'a Plan_scheme \<Rightarrow> string \<Rightarrow> 'a Plan_scheme" where
  "prepareApplyOutputDirSetting env plan outputDir =
    (let md = (case Metadata plan of None \<Rightarrow> Map.empty | Some m \<Rightarrow> m)
     in if outputDir \<noteq> []
          then plan\<lparr>Metadata := Some (md(''output_dir_override'' \<mapsto> IString outputDir))\<rparr>
        else if os_Getenv env ''COOLPACK_SPA_OUTPUT_DIR'' \<noteq> []
          then plan\<lparr>Metadata := Some (md(''output_dir_override'' \<mapsto>
                    IString (os_Getenv env ''COOLPACK_SPA_OUTPUT_DIR'')))\<rparr>
        else plan\<lparr>Metadata := Some md\<rparr>)"

subsection \<open>The SPA flag\<close>

text \<open>The two early returns of the source are the first two branches.\<close>

definition prepareApplySPASetting ::
  "environ \<Rightarrow> 'a Plan_scheme \<Rightarrow> bool \<Rightarrow> bool \<Rightarrow> 'a Plan_scheme" where
  "prepareApplySPASetting env plan spa noSPA =
    (let md = (case Metadata plan of None \<Rightarrow> Map.empty | Some m \<Rightarrow> m)
     in if noSPA then plan\<lparr>Metadata := Some (md(''is_spa'' := None))\<rparr>
        else if os_Getenv env ''COOLPACK_NO_SPA'' = ''true''
                \<or> os_Getenv env ''COOLPACK_NO_SPA'' = ''1''
          then plan\<lparr>Metadata := Some (md(''is_spa'' := None))\<rparr>
        else if spa then plan\<lparr>Metadata := Some (md(''is_spa'' \<mapsto> IBool True))\<rparr>
        else if os_Getenv env ''COOLPACK_SPA'' = ''true''
                \<or> os_Getenv env ''COOLPACK_SPA'' = ''1''
          then plan\<lparr>Metadata := Some (md(''is_spa'' \<mapsto> IBool True))\<rparr>
        else plan\<lparr>Metadata := Some md\<rparr>)"

subsection \<open>Library functions on strings\<close>

text \<open>
  Go strings are byte sequences, and so is \<open>string\<close>.  \<open>strings.Split\<close> and
  \<open>strings.Index\<close> are called with a separator of one byte only; the separator is
  the second argument here.  \<open>strings.Index\<close> returns \<open>-1\<close> when the separator
  does not occur.
\<close>

fun strings_Split :: "string \<Rightarrow> char \<Rightarrow> string list" where
  "strings_Split [] sep = [[]]"
| "strings_Split (c # cs) sep =
     (if c = sep then [] # strings_Split cs sep
      else (case strings_Split cs sep of
              [] \<Rightarrow> [[c]]
            | w # ws \<Rightarrow> (c # w) # ws))"

fun strings_Index :: "string \<Rightarrow> char \<Rightarrow> int" where
  "strings_Index [] sep = - 1"
| "strings_Index (c # cs) sep =
     (if c = sep then 0
      else (let i = strings_Index cs sep in if i = - 1 then - 1 else i + 1))"

text \<open>
  \<open>strings.TrimSpace\<close> removes leading and trailing white space as Unicode defines
  it (\<open>unicode.IsSpace\<close>): the six ASCII characters tab, line feed, vertical tab,
  form feed, carriage return and space, and the code points U+0085, U+00A0, U+1680,
  U+2000 to U+200A, U+2028, U+2029, U+202F, U+205F and U+3000, which appear in a string
  as their UTF-8 encodings.  A byte that does not start a well-formed encoding of one
  of them stops the trimming.
\<close>

definition spaceEncodings :: "string list" where
  "spaceEncodings =
    [[CHR 0x09], [CHR 0x0A], [CHR 0x0B], [CHR 0x0C], [CHR 0x0D], [CHR 0x20],
     [CHR 0xC2, CHR 0x85], [CHR 0xC2, CHR 0xA0],
     [CHR 0xE1, CHR 0x9A, CHR 0x80],
     [CHR 0xE2, CHR 0x80, CHR 0x80], [CHR 0xE2, CHR 0x80, CHR 0x81],
     [CHR 0xE2, CHR 0x80, CHR 0x82], [CHR 0xE2, CHR 0x80, CHR 0x83],
     [CHR 0xE2, CHR 0x80, CHR 0x84], [CHR 0xE2, CHR 0x80, CHR 0x85],
     [CHR 0xE2, CHR 0x80, CHR 0x86], [CHR 0xE2, CHR 0x80, CHR 0x87],
     [CHR 0xE2, CHR 0x80, CHR 0x88], [CHR 0xE2, CHR 0x80, CHR 0x89],
     [CHR 0xE2, CHR 0x80, CHR 0x8A],
     [CHR 0xE2, CHR 0x80, CHR 0xA8], [CHR 0xE2, CHR 0x80, CHR 0xA9],
     [CHR 0xE2, CHR 0x80, CHR 0xAF],
     [CHR 0xE2, CHR 0x81, CHR 0x9F],
     [CHR 0xE3, CHR 0x80, CHR 0x80]]"

function trimPrefixes :: "string list \<Rightarrow> string \<Rightarrow> string" where
  "trimPrefixes ws s =
     (case find (\<lambda>w. w \<noteq> [] \<and> take (length w) s = w) ws of
        None \<Rightarrow> s
      | Some w \<Rightarrow> trimPrefixes ws (drop (length w) s))"
  by pat_completeness auto
termination
proof (relation "measure (\<lambda>(ws, s). length s)")
  show "wf (measure (\<lambda>(ws :: string list, s :: string). length s))"
    by simp
next
  fix ws :: "string list" and s w :: string
  assume "find (\<lambda>w. w \<noteq> [] \<and> take (length w) s = w) ws = Some w"
  then have w: "w \<noteq> []" and t: "take (length w) s = w"
    by (auto simp: find_Some_iff)
  from t have "length (take (length w) s) = length w"
    by simp
  then have "length w \<le> length s"
    by simp
  with w have "length s - length w < length s"
    by (cases w) auto
  then show "((ws, drop (length w) s), (ws, s)) \<in> measure (\<lambda>(ws, s). length s)"
    by simp
qed

declare trimPrefixes.simps [simp del]

definition strings_TrimSpace :: "string \<Rightarrow> string" where
  "strings_TrimSpace s =
     rev (trimPrefixes (map rev spaceEncodings) (rev (trimPrefixes spaceEncodings s)))"

subsection \<open>Custom packages\<close>

text \<open>The three loops of \<open>prepareApplyCustomPackages\<close>, each with the slice (and
  the \<open>seen\<close> map) it appends to as an accumulator.\<close>

fun appendStringItems :: "string list \<Rightarrow> iface list \<Rightarrow> string list" where
  "appendStringItems customPackages [] = customPackages"
| "appendStringItems customPackages (pkg # rest) =
     (case pkg of
        IString s \<Rightarrow> appendStringItems (customPackages @ [s]) rest
      | _ \<Rightarrow> appendStringItems customPackages rest)"

fun appendEnvPackages :: "string list \<Rightarrow> string list \<Rightarrow> string list" where
  "appendEnvPackages customPackages [] = customPackages"
| "appendEnvPackages customPackages (pkg # rest) =
     (if strings_TrimSpace pkg \<noteq> []
      then appendEnvPackages (customPackages @ [strings_TrimSpace pkg]) rest
      else appendEnvPackages customPackages rest)"

fun deduplicate :: "(string \<rightharpoonup> bool) \<Rightarrow> string list \<Rightarrow> string list \<Rightarrow> string list" where
  "deduplicate seen unique [] = unique"
| "deduplicate seen unique (pkg # rest) =
     (if \<not> (case seen pkg of None \<Rightarrow> False | Some b \<Rightarrow> b)
      then deduplicate (seen(pkg \<mapsto> True)) (unique @ [pkg]) rest
      else deduplicate seen unique rest)"

definition prepareApplyCustomPackages ::
  "environ \<Rightarrow> 'a Plan_scheme \<Rightarrow> string list \<Rightarrow> 'a Plan_scheme" where
  "prepareApplyCustomPackages env plan packages =
    (let md = (case Metadata plan of None \<Rightarrow> Map.empty | Some m \<Rightarrow> m);
         customPackages0 =
           (case md ''custom_packages'' of
              Some (IList existing) \<Rightarrow> appendStringItems [] existing
            | Some (IStrings existing) \<Rightarrow> [] @ existing
            | _ \<Rightarrow> []);
         customPackages1 =
           (if length packages > 0 then customPackages0 @ packages else customPackages0);
         customPackages2 =
           (if os_Getenv env ''COOLPACK_PACKAGES'' \<noteq> []
            then appendEnvPackages customPackages1
                   (strings_Split (os_Getenv env ''COOLPACK_PACKAGES'') (CHR '',''))
            else customPackages1)
     in if length customPackages2 = 0 then plan\<lparr>Metadata := Some md\<rparr>
        else plan\<lparr>Metadata := Some (md(''custom_packages'' \<mapsto>
                    IStrings (deduplicate Map.empty [] customPackages2)))\<rparr>)"

subsection \<open>Build-time environment variables\<close>

text \<open>
  The map that \<open>prepareParseEnvVars\<close> builds is an association list with one pair
  for each key: an assignment to a key replaces its pair, so the length of the list is
  the number of keys, which is what \<open>len\<close> returns for the map.
\<close>

fun parseEnvArgs ::
  "environ \<Rightarrow> (string \<times> string) list \<Rightarrow> string list \<Rightarrow> (string \<times> string) list" where
  "parseEnvArgs env result [] = result"
| "parseEnvArgs env result (arg # rest) =
     (let idx = strings_Index arg (CHR ''='')
      in if idx \<noteq> - 1
           then parseEnvArgs env
                  (AList.update (take (nat idx) arg) (drop (nat (idx + 1)) arg) result) rest
         else (case env arg of
                 Some v \<Rightarrow> parseEnvArgs env (AList.update arg v result) rest
               | None \<Rightarrow> parseEnvArgs env result rest))"

definition prepareParseEnvVars :: "environ \<Rightarrow> string list \<Rightarrow> (string \<times> string) list" where
  "prepareParseEnvVars env envArgs = parseEnvArgs env [] envArgs"

subsection \<open>The command\<close>

text \<open>
  The flag variables of the command, as cobra fills them in before \<open>runPrepare\<close>
  is called.
\<close>

record flags =
  preparePath :: string
  prepareBuildEnvs :: "string list"
  prepareInstallCmd :: string
  prepareBuildCmd :: string
  prepareStartCmd :: string
  prepareStaticServer :: string
  prepareOutputDir :: string
  prepareSPA :: bool
  prepareNoSPA :: bool
  preparePackages :: "string list"
  preparePlanFile :: string

text \<open>
  A Go \<open>error\<close>: the errors that \<open>runPrepare\<close> and \<open>prepareLoadPlanFromFile\<close>
  build with \<open>fmt.Errorf\<close>, each wrapping its cause, and the errors that come
  from a library or from a collaborator.
\<close>

datatype error =
    LibraryError string
  | FailedToResolvePath error
  | PathDoesNotExist string
  | FailedToLoadPlanFile error
  | FailedToReadFile error
  | FailedToParseJSON error
  | DetectionFailed error
  | NoSupportedApplicationDetected
  | FailedToCreateDirectory error
  | FailedToGenerateDockerfile error
  | FailedToWriteDockerfile error

text \<open>\<open>os.Stat\<close>: the file is there, it does not exist, or another error.\<close>

datatype stat_result = StatOk | StatNotExist | StatOtherError

text \<open>
  What the command calls outside prepare.go: the process environment, the file
  system, the JSON decoder, the detector and the generator.  The detector returns a
  plan, no plan (a nil pointer) or an error.  All reads of the file system come before
  the first write, so one snapshot serves them.
\<close>

record 'a world =
  environment :: environ
  filepath_Abs :: "string \<Rightarrow> error + string"
  filepath_Join :: "string \<Rightarrow> string \<Rightarrow> string"
  os_Stat :: "string \<Rightarrow> stat_result"
  os_ReadFile :: "string \<Rightarrow> error + string"
  json_Unmarshal :: "string \<Rightarrow> error + 'a Plan_scheme"
  detector_Detect :: "string \<Rightarrow> error + 'a Plan_scheme option"
  os_MkdirAll :: "string \<Rightarrow> error option"
  generator_GenerateDockerfile :: "'a Plan_scheme \<Rightarrow> error + string"
  os_WriteFile :: "string \<Rightarrow> string \<Rightarrow> error option"

text \<open>The calls that a run makes to the outside, in order.\<close>

datatype 'a event =
    Stat string
  | Print string
  | ReadFile string
  | Detect string
  | MkdirAll string
  | Generate "'a Plan_scheme"
  | WriteFile string string

definition prepareLoadPlanFromFile :: "'a world \<Rightarrow> string \<Rightarrow> error + 'a Plan_scheme" where
  "prepareLoadPlanFromFile w path =
    (case os_ReadFile w path of
       Inl err \<Rightarrow> Inl (FailedToReadFile err)
     | Inr data \<Rightarrow>
         (case json_Unmarshal w data of
            Inl err \<Rightarrow> Inl (FailedToParseJSON err)
          | Inr plan \<Rightarrow> Inr plan))"

text \<open>Lines 69 to 76 of \<open>runPrepare\<close>: the path to analyse.\<close>

definition runPrepare_path :: "flags \<Rightarrow> string list \<Rightarrow> string" where
  "runPrepare_path fl args =
    (let path0 = ''.'';
         path1 = (if length args > 0 then hd args else path0)
     in if preparePath fl \<noteq> [] then preparePath fl else path1)"

text \<open>Lines 91 to 98: the plan file is the one of the \<open>--plan\<close> flag, or else
  coolpack.json in the project root when \<open>os.Stat\<close> finds it; the empty string
  stands for no plan file.\<close>

definition runPrepare_planFile :: "'a world \<Rightarrow> flags \<Rightarrow> string \<Rightarrow> string" where
  "runPrepare_planFile w fl absPath =
    (let planFile = preparePlanFile fl
     in if planFile = []
        then (let defaultPlanFile = filepath_Join w absPath ''coolpack.json''
              in if os_Stat w defaultPlanFile = StatOk then defaultPlanFile else planFile)
        else planFile)"

text \<open>Lines 89 to 120: the plan comes from the plan file, if there is one, and from
  detection otherwise.\<close>

definition runPrepare_basePlan ::
  "'a world \<Rightarrow> flags \<Rightarrow> string \<Rightarrow> 'a event list \<times> (error + 'a Plan_scheme)" where
  "runPrepare_basePlan w fl absPath =
    (let planFile = runPrepare_planFile w fl absPath;
         stats = (if preparePlanFile fl = []
                  then [Stat (filepath_Join w absPath ''coolpack.json'')] else [])
     in if planFile \<noteq> []
        then (case prepareLoadPlanFromFile w planFile of
                Inl err \<Rightarrow>
                  (stats @ [Print (''Using plan file: '' @ planFile @ [CHR 0x0A]),
                            ReadFile planFile],
                   Inl (FailedToLoadPlanFile err))
              | Inr plan \<Rightarrow>
                  (stats @ [Print (''Using plan file: '' @ planFile @ [CHR 0x0A]),
                            ReadFile planFile],
                   Inr plan))
        else (case detector_Detect w absPath of
                Inl err \<Rightarrow> (stats @ [Detect absPath], Inl (DetectionFailed err))
              | Inr None \<Rightarrow> (stats @ [Detect absPath], Inl NoSupportedApplicationDetected)
              | Inr (Some plan) \<Rightarrow> (stats @ [Detect absPath], Inr plan)))"

text \<open>Lines 122 to 141: the overlay stages in their order, then the build
  environment.\<close>

definition runPrepare_overrides :: "environ \<Rightarrow> flags \<Rightarrow> 'a Plan_scheme \<Rightarrow> 'a Plan_scheme" where
  "runPrepare_overrides env fl plan =
    (let plan1 = prepareApplyCommandOverrides env plan
                   (prepareInstallCmd fl) (prepareBuildCmd fl) (prepareStartCmd fl);
         plan2 = prepareApplyStaticServerSetting env plan1 (prepareStaticServer fl);
         plan3 = prepareApplySPASetting env plan2 (prepareSPA fl) (prepareNoSPA fl);
         plan4 = prepareApplyOutputDirSetting env plan3 (prepareOutputDir fl);
         plan5 = prepareApplyCustomPackages env plan4 (preparePackages fl);
         envMap = prepareParseEnvVars env (prepareBuildEnvs fl)
     in if length envMap > 0 then plan5\<lparr>BuildEnv := Some (map_of envMap)\<rparr> else plan5)"

text \<open>Lines 143 to 165: the output directory, the generator, the Dockerfile.\<close>

definition runPrepare_generate ::
  "'a world \<Rightarrow> string \<Rightarrow> 'a Plan_scheme \<Rightarrow> 'a event list \<times> error option" where
  "runPrepare_generate w absPath plan =
    (let coolpackDir = filepath_Join w absPath ''.coolpack''
     in case os_MkdirAll w coolpackDir of
          Some err \<Rightarrow> ([MkdirAll coolpackDir], Some (FailedToCreateDirectory err))
        | None \<Rightarrow>
            (case generator_GenerateDockerfile w plan of
               Inl err \<Rightarrow>
                 ([MkdirAll coolpackDir, Generate plan],
                  Some (FailedToGenerateDockerfile err))
             | Inr dockerfile \<Rightarrow>
                 (let dockerfilePath = filepath_Join w coolpackDir ''Dockerfile''
                  in case os_WriteFile w dockerfilePath dockerfile of
                       Some err \<Rightarrow>
                         ([MkdirAll coolpackDir, Generate plan,
                           WriteFile dockerfilePath dockerfile],
                          Some (FailedToWriteDockerfile err))
                     | None \<Rightarrow>
                         ([MkdirAll coolpackDir, Generate plan,
                           WriteFile dockerfilePath dockerfile,
                           Print (''Generated files in '' @ coolpackDir @ '':'' @ [CHR 0x0A]),
                           Print (''  - Dockerfile'' @ [CHR 0x0A])],
                          None))))"

text \<open>The whole command: the events of the run and the error it returns
  (\<open>None\<close> is Go's nil).\<close>

definition runPrepare :: "'a world \<Rightarrow> flags \<Rightarrow> string list \<Rightarrow> 'a event list \<times> error option" where
  "runPrepare w fl args =
    (case filepath_Abs w (runPrepare_path fl args) of
       Inl err \<Rightarrow> ([], Some (FailedToResolvePath err))
     | Inr absPath \<Rightarrow>
         if os_Stat w absPath = StatNotExist
         then ([Stat absPath], Some (PathDoesNotExist absPath))
         else (case runPrepare_basePlan w fl absPath of
                 (evs, Inl err) \<Rightarrow> (Stat absPath # evs, Some err)
               | (evs, Inr plan) \<Rightarrow>
                   (case runPrepare_generate w absPath
                           (runPrepare_overrides (environment w) fl plan) of
                      (evs', res) \<Rightarrow> (Stat absPath # evs @ evs', res))))"

subsection \<open>The override rules as the specification words them\<close>

text \<open>An environment variable counts as a switch that is on when its value is
  \<open>true\<close> or \<open>1\<close>.\<close>

definition envSwitchedOn :: "environ \<Rightarrow> string \<Rightarrow> bool" where
  "envSwitchedOn env k = (os_Getenv env k = ''true'' \<or> os_Getenv env k = ''1'')"

text \<open>The last non-empty value of a list of layers given in rising priority, if
  there is one.\<close>

definition lastNonEmpty :: "string list \<Rightarrow> string option" where
  "lastNonEmpty vs = (case rev (filter (\<lambda>v. v \<noteq> []) vs) of [] \<Rightarrow> None | v # _ \<Rightarrow> Some v)"

text \<open>
  The layered reading of the SPA rule: the layers are the base plan, the environment
  and the command line, in rising priority; the key is present when some layer
  enables it and no layer of the same or a higher priority disables it.
\<close>

definition spec_is_spa_present :: "environ \<Rightarrow> flags \<Rightarrow> 'a Plan_scheme \<Rightarrow> bool" where
  "spec_is_spa_present env fl plan =
    ((prepareSPA fl \<and> \<not> prepareNoSPA fl)
     \<or> (envSwitchedOn env ''COOLPACK_SPA''
          \<and> \<not> envSwitchedOn env ''COOLPACK_NO_SPA'' \<and> \<not> prepareNoSPA fl)
     \<or> (metadataOf plan ''is_spa'' \<noteq> None
          \<and> \<not> envSwitchedOn env ''COOLPACK_NO_SPA'' \<and> \<not> prepareNoSPA fl))"

text \<open>Deduplication that keeps the first occurrence of every entry.\<close>

fun keepFirst :: "'a list \<Rightarrow> 'a list" where
  "keepFirst [] = []"
| "keepFirst (x # xs) = x # keepFirst (filter (\<lambda>y. y \<noteq> x) xs)"

text \<open>The packages that a plan holds under \<open>custom_packages\<close>: the strings of a
  decoded JSON array, or the entries of a string slice.\<close>

definition stringItems :: "iface list \<Rightarrow> string list" where
  "stringItems xs = concat (map (\<lambda>x. case x of IString s \<Rightarrow> [s] | _ \<Rightarrow> []) xs)"

definition customPackagesOf :: "'a Plan_scheme \<Rightarrow> string list" where
  "customPackagesOf plan =
     (case metadataOf plan ''custom_packages'' of
        Some (IList xs) \<Rightarrow> stringItems xs
      | Some (IStrings xs) \<Rightarrow> xs
      | _ \<Rightarrow> [])"

text \<open>The packages of the environment: the value of \<open>COOLPACK_PACKAGES\<close> split on
  commas, each entry trimmed, empty entries dropped.\<close>

definition envPackages :: "environ \<Rightarrow> string list" where
  "envPackages env =
     filter (\<lambda>s. s \<noteq> [])
       (map strings_TrimSpace (strings_Split (os_Getenv env ''COOLPACK_PACKAGES'') (CHR '','')))"

text \<open>The validity of a resolved plan as the specification requires it of a plan
  that reaches the generator.\<close>

definition spec_planValid :: "'a Plan_scheme \<Rightarrow> bool" where
  "spec_planValid plan =
    (InstallCommand plan \<noteq> [] \<or> BuildCommand plan \<noteq> [] \<or> StartCommand plan \<noteq> []
     \<or> Language plan = ''static'')"

subsection \<open>Concrete inputs\<close>

text \<open>The zero value of the plan struct, and the flags at their defaults.\<close>

definition zeroPlan :: Plan where
  "zeroPlan = \<lparr>Language = [], PackageManager = [], InstallCommand = [], BuildCommand = [],
     StartCommand = [], BuildEnv = None, Metadata = None\<rparr>"

definition noFlags :: flags where
  "noFlags = \<lparr>preparePath = [], prepareBuildEnvs = [], prepareInstallCmd = [],
     prepareBuildCmd = [], prepareStartCmd = [], prepareStaticServer = [],
     prepareOutputDir = [], prepareSPA = False, prepareNoSPA = False,
     preparePackages = [], preparePlanFile = []\<rparr>"

text \<open>
  A project directory \<open>/app\<close>, the working directory of the run, holding the files
  of the association list; the JSON decoder accepts the text \<open>{}\<close> only, the
  detector finds nothing, and the generator rejects every plan.
\<close>

definition projectWorld :: "(string \<times> string) list \<Rightarrow> environ \<Rightarrow> unit world" where
  "projectWorld files env =
    \<lparr>environment = env,
     filepath_Abs = (\<lambda>p. if p = ''.'' then Inr ''/app'' else Inr p),
     filepath_Join = (\<lambda>a b. a @ ''/'' @ b),
     os_Stat = (\<lambda>p. if p = ''/app'' \<or> map_of files p \<noteq> None then StatOk else StatNotExist),
     os_ReadFile = (\<lambda>p. case map_of files p of
                           None \<Rightarrow> Inl (LibraryError ''no such file or directory'')
                         | Some data \<Rightarrow> Inr data),
     json_Unmarshal = (\<lambda>data. if data = ''{}'' then Inr zeroPlan
                              else Inl (LibraryError ''unexpected end of JSON input'')),
     detector_Detect = (\<lambda>p. Inr None),
     os_MkdirAll = (\<lambda>p. None),
     generator_GenerateDockerfile = (\<lambda>plan. Inl (LibraryError ''no runtime strategy'')),
     os_WriteFile = (\<lambda>p data. None)\<rparr>"

text \<open>Environments and flags that carry SPA signals.\<close>

definition envSPA :: environ where
  "envSPA = [''COOLPACK_SPA'' \<mapsto> ''true'']"

definition envNoSPA :: environ where
  "envNoSPA = [''COOLPACK_NO_SPA'' \<mapsto> ''1'']"

definition envBoth :: environ where
  "envBoth = [''COOLPACK_SPA'' \<mapsto> ''true'', ''COOLPACK_NO_SPA'' \<mapsto> ''1'']"

definition flagsSPA :: flags where
  "flagsSPA = noFlags\<lparr>prepareSPA := True\<rparr>"

text \<open>Inputs for the package, scalar and build-environment overrides.\<close>

definition envPkgs :: environ where
  "envPkgs = [''COOLPACK_PACKAGES'' \<mapsto> ''curl, wget,,make '']"

definition planPkgs :: Plan where
  "planPkgs = zeroPlan\<lparr>Metadata :=
     Some [''custom_packages'' \<mapsto> IList [IString ''make'', INum 1, IString ''git'']]\<rparr>"

definition envScalars :: environ where
  "envScalars = [''COOLPACK_INSTALL_CMD'' \<mapsto> ''yarn install'',
                 ''COOLPACK_BUILD_CMD'' \<mapsto> ''yarn build'',
                 ''COOLPACK_STATIC_SERVER'' \<mapsto> ''nginx'']"

definition flagsScalars :: flags where
  "flagsScalars = noFlags\<lparr>prepareInstallCmd := ''pnpm install'', prepareOutputDir := ''dist''\<rparr>"

definition planScalars :: Plan where
  "planScalars = zeroPlan\<lparr>Language := ''node'', InstallCommand := ''npm install'',
     BuildCommand := ''npm run build'', StartCommand := ''npm start'',
     Metadata := Some [''static_server'' \<mapsto> IString ''caddy'']\<rparr>"

definition envHome :: environ where
  "envHome = [''HOME'' \<mapsto> ''/root'']"

definition planBuildEnv :: Plan where
  "planBuildEnv = zeroPlan\<lparr>BuildEnv := Some [''OLD'' \<mapsto> ''1'']\<rparr>"

definition flagsBuildEnv :: flags where
  "flagsBuildEnv = noFlags\<lparr>prepareBuildEnvs := [''NODE_ENV=production'', ''HOME'']\<rparr>"

definition flagsUnsetBuildEnv :: flags where
  "flagsUnsetBuildEnv = noFlags\<lparr>prepareBuildEnvs := [''MISSING'']\<rparr>"

text \<open>Project directories: one with a malformed plan file, an empty one, and one
  whose plan file holds the empty JSON object.\<close>

definition brokenPlanFile :: "unit world" where
  "brokenPlanFile = projectWorld [(''/app/coolpack.json'', ''{'')] Map.empty"

definition emptyDirectory :: "unit world" where
  "emptyDirectory = projectWorld [] Map.empty"

definition emptyPlanFile :: "unit world" where
  "emptyPlanFile = projectWorld [(''/app/coolpack.json'', ''{}'')] Map.empty"

text \<open>A project directory whose plan file gives a start command, with a decoder that
  reads it, and one whose coolpack.json cannot be read.\<close>

definition startPlanJSON :: string where
  "startPlanJSON =
     ''{'' @ [CHR 0x22] @ ''startCommand'' @ [CHR 0x22] @ '':''
       @ [CHR 0x22] @ ''npm start'' @ [CHR 0x22] @ ''}''"

definition startPlan :: Plan where
  "startPlan = zeroPlan\<lparr>StartCommand := ''npm start''\<rparr>"

definition startPlanFile :: "unit world" where
  "startPlanFile =
     (projectWorld [(''/app/coolpack.json'', startPlanJSON)] Map.empty)
       \<lparr>json_Unmarshal := (\<lambda>data. if data = startPlanJSON then Inr startPlan
                                 else Inl (LibraryError ''unexpected end of JSON input''))\<rparr>"

definition unreadablePlanFile :: "unit world" where
  "unreadablePlanFile =
     (projectWorld [(''/app/coolpack.json'', [])] Map.empty)
       \<lparr>os_ReadFile := (\<lambda>p. Inl (LibraryError ''is a directory''))\<rparr>"

section \<open>Properties\<close>

subsection \<open>What each overlay does to the metadata\<close>

lemma metadataOf_update [simp]: "metadataOf (plan\<lparr>Metadata := Some m\<rparr>) = m"
  by (simp add: metadataOf_def)

lemma metadataOf_BuildEnv [simp]: "metadataOf (plan\<lparr>BuildEnv := b\<rparr>) = metadataOf plan"
  by (simp add: metadataOf_def)

lemma metadataOf_CommandOverrides [simp]:
  "metadataOf (prepareApplyCommandOverrides env plan i b s) = metadataOf plan"
  by (simp add: prepareApplyCommandOverrides_def metadataOf_def Let_def)

lemma metadataOf_StaticServer:
  "metadataOf (prepareApplyStaticServerSetting env plan v) =
     (case lastNonEmpty [os_Getenv env ''COOLPACK_STATIC_SERVER'', v] of
        None \<Rightarrow> metadataOf plan
      | Some x \<Rightarrow> (metadataOf plan)(''static_server'' \<mapsto> IString x))"
  by (simp add: prepareApplyStaticServerSetting_def metadataOf_def lastNonEmpty_def Let_def)

lemma metadataOf_OutputDir:
  "metadataOf (prepareApplyOutputDirSetting env plan v) =
     (case lastNonEmpty [os_Getenv env ''COOLPACK_SPA_OUTPUT_DIR'', v] of
        None \<Rightarrow> metadataOf plan
      | Some x \<Rightarrow> (metadataOf plan)(''output_dir_override'' \<mapsto> IString x))"
  by (simp add: prepareApplyOutputDirSetting_def metadataOf_def lastNonEmpty_def Let_def)

lemma metadataOf_SPA:
  "metadataOf (prepareApplySPASetting env plan spa noSPA) =
     (if noSPA \<or> envSwitchedOn env ''COOLPACK_NO_SPA''
        then (metadataOf plan)(''is_spa'' := None)
      else if spa \<or> envSwitchedOn env ''COOLPACK_SPA''
        then (metadataOf plan)(''is_spa'' \<mapsto> IBool True)
      else metadataOf plan)"
  by (simp add: prepareApplySPASetting_def metadataOf_def envSwitchedOn_def Let_def)

text \<open>An overlay leaves the keys of the other overlays alone.\<close>

lemma metadataOf_StaticServer_other:
  "k \<noteq> ''static_server'' \<Longrightarrow>
   metadataOf (prepareApplyStaticServerSetting env plan v) k = metadataOf plan k"
  by (simp add: metadataOf_StaticServer split: option.splits)

lemma metadataOf_OutputDir_other:
  "k \<noteq> ''output_dir_override'' \<Longrightarrow>
   metadataOf (prepareApplyOutputDirSetting env plan v) k = metadataOf plan k"
  by (simp add: metadataOf_OutputDir split: option.splits)

lemma metadataOf_SPA_other:
  "k \<noteq> ''is_spa'' \<Longrightarrow>
   metadataOf (prepareApplySPASetting env plan spa noSPA) k = metadataOf plan k"
  by (simp add: metadataOf_SPA)

lemma metadataOf_CustomPackages_other:
  "k \<noteq> ''custom_packages'' \<Longrightarrow>
   metadataOf (prepareApplyCustomPackages env plan pkgs) k = metadataOf plan k"
  by (simp add: prepareApplyCustomPackages_def Let_def metadataOf_def)

subsection \<open>The SPA flag\<close>

lemma is_spa_SPA:
  "(metadataOf (prepareApplySPASetting env plan spa noSPA) ''is_spa'' \<noteq> None) =
     (\<not> (noSPA \<or> envSwitchedOn env ''COOLPACK_NO_SPA'')
      \<and> (spa \<or> envSwitchedOn env ''COOLPACK_SPA'' \<or> metadataOf plan ''is_spa'' \<noteq> None))"
  by (simp add: metadataOf_SPA)

lemma is_spa_overrides:
  "metadataOf (runPrepare_overrides env fl plan) ''is_spa'' =
   metadataOf (prepareApplySPASetting env plan (prepareSPA fl) (prepareNoSPA fl)) ''is_spa''"
  by (simp add: runPrepare_overrides_def Let_def metadataOf_CustomPackages_other
        metadataOf_OutputDir_other metadataOf_SPA metadataOf_StaticServer_other)

text \<open>
  Claim C1, as the code has it.  The key \<open>is_spa\<close> is in the metadata after
  \<open>prepareApplySPASetting\<close>, and in the plan that all overlays of \<open>runPrepare\<close>
  produce, exactly when no disable signal is given (neither \<open>--no-spa\<close> nor
  \<open>COOLPACK_NO_SPA\<close> set to \<open>true\<close> or \<open>1\<close>) and some enable signal is given
  (\<open>--spa\<close>, or \<open>COOLPACK_SPA\<close> set to \<open>true\<close> or \<open>1\<close>, or the key already in
  the base plan).  A disable signal of the environment therefore also beats the
  enable flag of the command line.
\<close>

theorem is_spa_present_iff:
  "(metadataOf (prepareApplySPASetting env plan spa noSPA) ''is_spa'' \<noteq> None) =
     (\<not> (noSPA \<or> envSwitchedOn env ''COOLPACK_NO_SPA'')
      \<and> (spa \<or> envSwitchedOn env ''COOLPACK_SPA'' \<or> metadataOf plan ''is_spa'' \<noteq> None))
   \<and> (metadataOf (runPrepare_overrides env fl plan) ''is_spa'' \<noteq> None) =
     (\<not> (prepareNoSPA fl \<or> envSwitchedOn env ''COOLPACK_NO_SPA'')
      \<and> (prepareSPA fl \<or> envSwitchedOn env ''COOLPACK_SPA''
          \<or> metadataOf plan ''is_spa'' \<noteq> None))"
  by (simp only: is_spa_overrides is_spa_SPA)

theorem is_spa_present_iff_witness:
  "metadataOf (prepareApplySPASetting envSPA zeroPlan False False) ''is_spa'' \<noteq> None
   \<and> metadataOf (runPrepare_overrides envSPA noFlags zeroPlan) ''is_spa'' \<noteq> None"
  using is_spa_present_iff [where env = envSPA and plan = zeroPlan and spa = False
          and noSPA = False and fl = noFlags]
  by (simp add: envSwitchedOn_def os_Getenv_def envSPA_def noFlags_def)

text \<open>
  Claim C1 as it is stated fails: with \<open>--spa\<close> on the command line and
  \<open>COOLPACK_NO_SPA=1\<close> in the environment, the only disable signal comes from the
  layer of lower priority, so the layered rule says the key is present; the code
  removes it.
\<close>

theorem is_spa_layered_counterexample:
  "spec_is_spa_present envNoSPA flagsSPA zeroPlan
   \<and> metadataOf (prepareApplySPASetting envNoSPA zeroPlan (prepareSPA flagsSPA)
        (prepareNoSPA flagsSPA)) ''is_spa'' = None
   \<and> metadataOf (runPrepare_overrides envNoSPA flagsSPA zeroPlan) ''is_spa'' = None"
  by (simp add: spec_is_spa_present_def is_spa_overrides metadataOf_SPA envSwitchedOn_def
        os_Getenv_def envNoSPA_def flagsSPA_def noFlags_def)

text \<open>
  Claim C6.  When a disable signal for SPA mode is given, by \<open>--no-spa\<close> or by
  \<open>COOLPACK_NO_SPA\<close>, the key \<open>is_spa\<close> is absent after
  \<open>prepareApplySPASetting\<close> and in the plan that all overlays produce, whatever
  enable signals are given with it and whatever the base plan holds.
\<close>

theorem spa_disable_removes_key:
  assumes "prepareNoSPA fl \<or> envSwitchedOn env ''COOLPACK_NO_SPA''"
  shows "metadataOf (prepareApplySPASetting env plan (prepareSPA fl) (prepareNoSPA fl))
           ''is_spa'' = None
         \<and> metadataOf (runPrepare_overrides env fl plan) ''is_spa'' = None"
  using assms by (simp only: is_spa_overrides) (simp add: metadataOf_SPA)

theorem spa_disable_removes_key_witness:
  "(prepareNoSPA flagsSPA \<or> envSwitchedOn envBoth ''COOLPACK_NO_SPA'')
   \<and> prepareSPA flagsSPA \<and> envSwitchedOn envBoth ''COOLPACK_SPA''
   \<and> metadataOf (prepareApplySPASetting envBoth zeroPlan (prepareSPA flagsSPA)
         (prepareNoSPA flagsSPA)) ''is_spa'' = None
   \<and> metadataOf (runPrepare_overrides envBoth flagsSPA zeroPlan) ''is_spa'' = None"
proof -
  have d: "prepareNoSPA flagsSPA \<or> envSwitchedOn envBoth ''COOLPACK_NO_SPA''"
    by (simp add: envSwitchedOn_def os_Getenv_def envBoth_def)
  have e: "prepareSPA flagsSPA \<and> envSwitchedOn envBoth ''COOLPACK_SPA''"
    by (simp add: envSwitchedOn_def os_Getenv_def envBoth_def flagsSPA_def)
  from d e spa_disable_removes_key [OF d, of zeroPlan] show ?thesis
    by blast
qed

subsection \<open>Deduplication and the custom packages\<close>

lemma set_keepFirst [simp]: "set (keepFirst xs) = set xs"
  by (induction xs rule: keepFirst.induct) auto

lemma distinct_keepFirst [simp]: "distinct (keepFirst xs)"
  by (induction xs rule: keepFirst.induct) auto

lemma keepFirst_distinct: "distinct xs \<Longrightarrow> keepFirst xs = xs"
proof (induction xs rule: keepFirst.induct)
  case 1
  show ?case by simp
next
  case (2 x xs)
  from "2.prems" have "filter (\<lambda>y. y \<noteq> x) xs = xs"
    by (auto intro: filter_True)
  with 2 show ?case by simp
qed

lemma keepFirst_append:
  "keepFirst (xs @ ys) = keepFirst xs @ keepFirst (filter (\<lambda>y. y \<notin> set xs) ys)"
proof (induction xs arbitrary: ys rule: keepFirst.induct)
  case 1
  show ?case by simp
next
  case (2 x xs)
  have "filter (\<lambda>y. y \<notin> set (filter (\<lambda>y. y \<noteq> x) xs)) (filter (\<lambda>y. y \<noteq> x) ys)
        = filter (\<lambda>y. y \<notin> set (x # xs)) ys"
    by (induction ys) auto
  with "2.IH" [of "filter (\<lambda>y. y \<noteq> x) ys"] show ?case by simp
qed

lemma keepFirst_absorb:
  "set ys \<subseteq> set xs \<Longrightarrow> keepFirst (keepFirst xs @ ys) = keepFirst xs"
proof -
  assume "set ys \<subseteq> set xs"
  then have "filter (\<lambda>y. y \<notin> set xs) ys = []"
    by (auto simp: filter_empty_conv)
  then show ?thesis
    by (simp add: keepFirst_append keepFirst_distinct)
qed

lemma appendStringItems_eq: "appendStringItems acc xs = acc @ stringItems xs"
  by (induction xs arbitrary: acc) (auto simp: stringItems_def split: iface.splits)

lemma appendEnvPackages_eq:
  "appendEnvPackages acc ps = acc @ filter (\<lambda>s. s \<noteq> []) (map strings_TrimSpace ps)"
  by (induction ps arbitrary: acc) auto

lemma deduplicate_eq:
  "(\<And>x. (case seen x of None \<Rightarrow> False | Some b \<Rightarrow> b) = (x \<in> set unique)) \<Longrightarrow>
   deduplicate seen unique xs = unique @ keepFirst (filter (\<lambda>y. y \<notin> set unique) xs)"
proof (induction xs arbitrary: seen unique)
  case Nil
  show ?case by simp
next
  case (Cons x xs)
  show ?case
  proof (cases "x \<in> set unique")
    case True
    with Cons.prems have "(case seen x of None \<Rightarrow> False | Some b \<Rightarrow> b)" by simp
    with True Cons.IH [OF Cons.prems] show ?thesis by simp
  next
    case False
    with Cons.prems have nseen: "\<not> (case seen x of None \<Rightarrow> False | Some b \<Rightarrow> b)" by simp
    have inv: "\<And>y. (case (seen(x \<mapsto> True)) y of None \<Rightarrow> False | Some b \<Rightarrow> b) = (y \<in> set (unique @ [x]))"
      using Cons.prems by auto
    have f: "filter (\<lambda>y. y \<notin> set (unique @ [x])) xs
             = filter (\<lambda>y. y \<noteq> x) (filter (\<lambda>y. y \<notin> set unique) xs)"
      by (induction xs) auto
    have "deduplicate seen unique (x # xs) = deduplicate (seen(x \<mapsto> True)) (unique @ [x]) xs"
      using nseen by simp
    also have "\<dots> = (unique @ [x]) @ keepFirst (filter (\<lambda>y. y \<notin> set (unique @ [x])) xs)"
      by (rule Cons.IH [OF inv])
    also have "\<dots> = unique @ keepFirst (filter (\<lambda>y. y \<notin> set unique) (x # xs))"
      using False by (simp only: f) simp
    finally show ?thesis .
  qed
qed

lemma deduplicate_keepFirst: "deduplicate Map.empty [] xs = keepFirst xs"
  using deduplicate_eq [of Map.empty "[]" xs] by simp

lemma strings_TrimSpace_Nil: "strings_TrimSpace [] = []"
  by code_simp

lemma envPackages_empty: "os_Getenv env ''COOLPACK_PACKAGES'' = [] \<Longrightarrow> envPackages env = []"
  by (simp add: envPackages_def strings_TrimSpace_Nil)

lemma prepareApplyCustomPackages_eq:
  "prepareApplyCustomPackages env plan pkgs =
     (if customPackagesOf plan @ pkgs @ envPackages env = []
      then plan\<lparr>Metadata := Some (metadataOf plan)\<rparr>
      else plan\<lparr>Metadata := Some ((metadataOf plan)(''custom_packages'' \<mapsto>
             IStrings (keepFirst (customPackagesOf plan @ pkgs @ envPackages env))))\<rparr>)"
proof (cases "os_Getenv env ''COOLPACK_PACKAGES'' = []")
  case True
  then have "envPackages env = []"
    by (rule envPackages_empty)
  with True show ?thesis
    by (simp add: prepareApplyCustomPackages_def Let_def metadataOf_def [symmetric]
          customPackagesOf_def appendStringItems_eq deduplicate_keepFirst
          split: option.splits iface.splits)
next
  case False
  have "appendEnvPackages acc (strings_Split (os_Getenv env ''COOLPACK_PACKAGES'') (CHR '',''))
        = acc @ envPackages env" for acc
    by (simp add: appendEnvPackages_eq envPackages_def)
  with False show ?thesis
    by (simp add: prepareApplyCustomPackages_def Let_def metadataOf_def [symmetric]
          customPackagesOf_def appendStringItems_eq deduplicate_keepFirst
          split: option.splits iface.splits)
qed

lemma metadataOf_CustomPackages:
  "metadataOf (prepareApplyCustomPackages env plan pkgs) =
     (if customPackagesOf plan @ pkgs @ envPackages env = [] then metadataOf plan
      else (metadataOf plan)(''custom_packages'' \<mapsto>
             IStrings (keepFirst (customPackagesOf plan @ pkgs @ envPackages env))))"
  by (simp add: prepareApplyCustomPackages_eq)

lemma customPackagesOf_cong:
  "metadataOf p ''custom_packages'' = metadataOf q ''custom_packages'' \<Longrightarrow>
   customPackagesOf p = customPackagesOf q"
  by (simp add: customPackagesOf_def)

lemma customPackagesOf_CustomPackages:
  "customPackagesOf (prepareApplyCustomPackages env plan pkgs) =
   keepFirst (customPackagesOf plan @ pkgs @ envPackages env)"
proof (cases "customPackagesOf plan @ pkgs @ envPackages env = []")
  case True
  then have "customPackagesOf (prepareApplyCustomPackages env plan pkgs) = customPackagesOf plan"
    by (intro customPackagesOf_cong) (simp add: metadataOf_CustomPackages)
  with True show ?thesis by simp
next
  case False
  then have "metadataOf (prepareApplyCustomPackages env plan pkgs) ''custom_packages'' =
             Some (IStrings (keepFirst (customPackagesOf plan @ pkgs @ envPackages env)))"
    by (simp only: metadataOf_CustomPackages if_False fun_upd_same)
  then show ?thesis
    unfolding customPackagesOf_def [of "prepareApplyCustomPackages env plan pkgs"]
    by simp
qed

lemma custom_packages_overrides:
  "metadataOf (runPrepare_overrides env fl plan) ''custom_packages'' =
   metadataOf (prepareApplyCustomPackages env plan (preparePackages fl)) ''custom_packages''"
proof -
  let ?p4 = "prepareApplyOutputDirSetting env
               (prepareApplySPASetting env
                 (prepareApplyStaticServerSetting env
                   (prepareApplyCommandOverrides env plan
                     (prepareInstallCmd fl) (prepareBuildCmd fl) (prepareStartCmd fl))
                   (prepareStaticServer fl))
                 (prepareSPA fl) (prepareNoSPA fl))
               (prepareOutputDir fl)"
  have k: "metadataOf ?p4 ''custom_packages'' = metadataOf plan ''custom_packages''"
    by (simp add: metadataOf_OutputDir_other metadataOf_SPA_other
          metadataOf_StaticServer_other)
  then have c: "customPackagesOf ?p4 = customPackagesOf plan"
    by (rule customPackagesOf_cong)
  show ?thesis
    by (simp add: runPrepare_overrides_def Let_def metadataOf_CustomPackages c k)
qed

text \<open>
  Claim C2.  The packages that the plan holds under \<open>custom_packages\<close> after
  \<open>prepareApplyCustomPackages\<close> are the packages it held before, then the packages of
  the command line, then the packages of \<open>COOLPACK_PACKAGES\<close> (split on commas,
  trimmed, empty entries dropped), with only the first occurrence of each entry kept;
  the list has no duplicates; and when this list is not empty it is stored under the
  key as a string slice.  The same holds for the plan that all overlays of
  \<open>runPrepare\<close> produce.
\<close>

theorem custom_packages_resolved:
  "customPackagesOf (prepareApplyCustomPackages env plan pkgs) =
     keepFirst (customPackagesOf plan @ pkgs @ envPackages env)
   \<and> distinct (customPackagesOf (prepareApplyCustomPackages env plan pkgs))
   \<and> (customPackagesOf plan @ pkgs @ envPackages env \<noteq> [] \<longrightarrow>
        metadataOf (prepareApplyCustomPackages env plan pkgs) ''custom_packages'' =
          Some (IStrings (keepFirst (customPackagesOf plan @ pkgs @ envPackages env))))
   \<and> customPackagesOf (runPrepare_overrides env fl plan) =
       keepFirst (customPackagesOf plan @ preparePackages fl @ envPackages env)"
proof -
  have "customPackagesOf (runPrepare_overrides env fl plan) =
        customPackagesOf (prepareApplyCustomPackages env plan (preparePackages fl))"
    by (rule customPackagesOf_cong) (rule custom_packages_overrides)
  then show ?thesis
    by (simp add: customPackagesOf_CustomPackages metadataOf_CustomPackages)
qed

theorem custom_packages_resolved_witness:
  "customPackagesOf planPkgs @ [''git''] @ envPackages envPkgs \<noteq> []
   \<and> metadataOf (prepareApplyCustomPackages envPkgs planPkgs [''git'']) ''custom_packages'' =
       Some (IStrings [''make'', ''git'', ''curl'', ''wget''])"
proof -
  have e: "envPackages envPkgs = [''curl'', ''wget'', ''make'']"
    by code_simp
  have c: "customPackagesOf planPkgs = [''make'', ''git'']"
    by code_simp
  from custom_packages_resolved [where env = envPkgs and plan = planPkgs and pkgs = "[''git'']"]
  show ?thesis
    by (simp add: e c)
qed

subsection \<open>Scalar overrides\<close>

lemma InstallCommand_CommandOverrides:
  "InstallCommand (prepareApplyCommandOverrides env plan i b s) =
     (case lastNonEmpty [InstallCommand plan, os_Getenv env ''COOLPACK_INSTALL_CMD'', i] of
        None \<Rightarrow> [] | Some v \<Rightarrow> v)"
  by (simp add: prepareApplyCommandOverrides_def lastNonEmpty_def Let_def)

lemma BuildCommand_CommandOverrides:
  "BuildCommand (prepareApplyCommandOverrides env plan i b s) =
     (case lastNonEmpty [BuildCommand plan, os_Getenv env ''COOLPACK_BUILD_CMD'', b] of
        None \<Rightarrow> [] | Some v \<Rightarrow> v)"
  by (simp add: prepareApplyCommandOverrides_def lastNonEmpty_def Let_def)

lemma StartCommand_CommandOverrides:
  "StartCommand (prepareApplyCommandOverrides env plan i b s) =
     (case lastNonEmpty [StartCommand plan, os_Getenv env ''COOLPACK_START_CMD'', s] of
        None \<Rightarrow> [] | Some v \<Rightarrow> v)"
  by (simp add: prepareApplyCommandOverrides_def lastNonEmpty_def Let_def)

lemma static_server_StaticServer:
  "metadataOf (prepareApplyStaticServerSetting env plan v) ''static_server'' =
     (case lastNonEmpty [os_Getenv env ''COOLPACK_STATIC_SERVER'', v] of
        None \<Rightarrow> metadataOf plan ''static_server'' | Some x \<Rightarrow> Some (IString x))"
  by (simp add: metadataOf_StaticServer split: option.splits)

lemma output_dir_OutputDir:
  "metadataOf (prepareApplyOutputDirSetting env plan v) ''output_dir_override'' =
     (case lastNonEmpty [os_Getenv env ''COOLPACK_SPA_OUTPUT_DIR'', v] of
        None \<Rightarrow> metadataOf plan ''output_dir_override'' | Some x \<Rightarrow> Some (IString x))"
  by (simp add: metadataOf_OutputDir split: option.splits)

text \<open>The overlays after the first change the metadata only, and the last step the
  build environment only.\<close>

lemma StaticServer_form:
  "prepareApplyStaticServerSetting env plan v =
   plan\<lparr>Metadata := Some (metadataOf (prepareApplyStaticServerSetting env plan v))\<rparr>"
  by (simp add: prepareApplyStaticServerSetting_def Let_def)

lemma SPA_form:
  "prepareApplySPASetting env plan spa noSPA =
   plan\<lparr>Metadata := Some (metadataOf (prepareApplySPASetting env plan spa noSPA))\<rparr>"
  by (simp add: prepareApplySPASetting_def Let_def)

lemma OutputDir_form:
  "prepareApplyOutputDirSetting env plan v =
   plan\<lparr>Metadata := Some (metadataOf (prepareApplyOutputDirSetting env plan v))\<rparr>"
  by (simp add: prepareApplyOutputDirSetting_def Let_def)

lemma CustomPackages_form:
  "prepareApplyCustomPackages env plan pkgs =
   plan\<lparr>Metadata := Some (metadataOf (prepareApplyCustomPackages env plan pkgs))\<rparr>"
  by (simp add: prepareApplyCustomPackages_def Let_def)

lemma Metadata_update_trans:
  assumes "r = q\<lparr>Metadata := m'\<rparr>" and "q = p\<lparr>Metadata := m\<rparr>"
  shows "r = p\<lparr>Metadata := m'\<rparr>"
  using assms by simp

lemma form_BuildEnv:
  assumes "r = p\<lparr>Metadata := m\<rparr>"
  shows "r\<lparr>BuildEnv := e\<rparr> = p\<lparr>BuildEnv := e, Metadata := m\<rparr>"
  using assms by simp

lemma form_keep:
  assumes "r = p\<lparr>Metadata := m\<rparr>"
  shows "r = p\<lparr>BuildEnv := BuildEnv p, Metadata := m\<rparr>"
  using assms by simp

lemma BuildEnv_CommandOverrides [simp]:
  "BuildEnv (prepareApplyCommandOverrides env plan i b s) = BuildEnv plan"
  by (simp add: prepareApplyCommandOverrides_def Let_def)

lemma overrides_form:
  "runPrepare_overrides env fl plan =
     (prepareApplyCommandOverrides env plan
        (prepareInstallCmd fl) (prepareBuildCmd fl) (prepareStartCmd fl))
     \<lparr>BuildEnv := (if prepareParseEnvVars env (prepareBuildEnvs fl) = [] then BuildEnv plan
                   else Some (map_of (prepareParseEnvVars env (prepareBuildEnvs fl)))),
      Metadata := Some (metadataOf (runPrepare_overrides env fl plan))\<rparr>"
proof -
  let ?p1 = "prepareApplyCommandOverrides env plan
        (prepareInstallCmd fl) (prepareBuildCmd fl) (prepareStartCmd fl)"
  let ?p2 = "prepareApplyStaticServerSetting env ?p1 (prepareStaticServer fl)"
  let ?p3 = "prepareApplySPASetting env ?p2 (prepareSPA fl) (prepareNoSPA fl)"
  let ?p4 = "prepareApplyOutputDirSetting env ?p3 (prepareOutputDir fl)"
  let ?p5 = "prepareApplyCustomPackages env ?p4 (preparePackages fl)"
  let ?envMap = "prepareParseEnvVars env (prepareBuildEnvs fl)"
  have 5: "?p5 = ?p1\<lparr>Metadata := Some (metadataOf ?p5)\<rparr>"
    by (rule Metadata_update_trans [OF CustomPackages_form],
        rule Metadata_update_trans [OF OutputDir_form],
        rule Metadata_update_trans [OF SPA_form],
        rule StaticServer_form)
  show ?thesis
  proof (cases "?envMap = []")
    case False
    then have r: "runPrepare_overrides env fl plan = ?p5\<lparr>BuildEnv := Some (map_of ?envMap)\<rparr>"
      by (simp add: runPrepare_overrides_def Let_def)
    have m: "metadataOf (runPrepare_overrides env fl plan) = metadataOf ?p5"
      unfolding r by simp
    have "runPrepare_overrides env fl plan =
          ?p1\<lparr>BuildEnv := Some (map_of ?envMap), Metadata := Some (metadataOf ?p5)\<rparr>"
      unfolding r by (rule form_BuildEnv [OF 5])
    then show ?thesis
      unfolding m using False by simp
  next
    case True
    then have r: "runPrepare_overrides env fl plan = ?p5"
      by (simp add: runPrepare_overrides_def Let_def)
    have "runPrepare_overrides env fl plan =
          ?p1\<lparr>BuildEnv := BuildEnv ?p1, Metadata := Some (metadataOf ?p5)\<rparr>"
      unfolding r by (rule form_keep [OF 5])
    then have "runPrepare_overrides env fl plan =
          ?p1\<lparr>BuildEnv := BuildEnv plan,
               Metadata := Some (metadataOf (runPrepare_overrides env fl plan))\<rparr>"
      unfolding r [symmetric] by simp
    then show ?thesis
      using True by simp
  qed
qed

lemma static_server_overrides:
  "metadataOf (runPrepare_overrides env fl plan) ''static_server'' =
   metadataOf (prepareApplyStaticServerSetting env plan (prepareStaticServer fl)) ''static_server''"
  by (simp add: runPrepare_overrides_def Let_def metadataOf_CustomPackages_other
        metadataOf_OutputDir_other metadataOf_SPA_other metadataOf_StaticServer
        split: option.splits)

lemma output_dir_overrides:
  "metadataOf (runPrepare_overrides env fl plan) ''output_dir_override'' =
   metadataOf (prepareApplyOutputDirSetting env plan (prepareOutputDir fl)) ''output_dir_override''"
  by (simp add: runPrepare_overrides_def Let_def metadataOf_CustomPackages_other
        metadataOf_SPA_other metadataOf_StaticServer_other metadataOf_OutputDir
        split: option.splits)

text \<open>
  Claim C3.  In the plan that all overlays of \<open>runPrepare\<close> produce, each of the three
  commands is the last non-empty value among the base plan, the environment variable
  and the command-line flag, in this order of rising priority (and empty when all three
  are empty); the static server and the output directory override are the last
  non-empty value among the environment variable and the flag, stored as a string, and
  the entry of the base plan, untouched, when both are empty.
\<close>

theorem scalar_last_non_empty_wins:
  "InstallCommand (runPrepare_overrides env fl plan) =
     (case lastNonEmpty [InstallCommand plan, os_Getenv env ''COOLPACK_INSTALL_CMD'',
                         prepareInstallCmd fl] of
        None \<Rightarrow> [] | Some v \<Rightarrow> v)
   \<and> BuildCommand (runPrepare_overrides env fl plan) =
     (case lastNonEmpty [BuildCommand plan, os_Getenv env ''COOLPACK_BUILD_CMD'',
                         prepareBuildCmd fl] of
        None \<Rightarrow> [] | Some v \<Rightarrow> v)
   \<and> StartCommand (runPrepare_overrides env fl plan) =
     (case lastNonEmpty [StartCommand plan, os_Getenv env ''COOLPACK_START_CMD'',
                         prepareStartCmd fl] of
        None \<Rightarrow> [] | Some v \<Rightarrow> v)
   \<and> metadataOf (runPrepare_overrides env fl plan) ''static_server'' =
     (case lastNonEmpty [os_Getenv env ''COOLPACK_STATIC_SERVER'', prepareStaticServer fl] of
        None \<Rightarrow> metadataOf plan ''static_server'' | Some v \<Rightarrow> Some (IString v))
   \<and> metadataOf (runPrepare_overrides env fl plan) ''output_dir_override'' =
     (case lastNonEmpty [os_Getenv env ''COOLPACK_SPA_OUTPUT_DIR'', prepareOutputDir fl] of
        None \<Rightarrow> metadataOf plan ''output_dir_override'' | Some v \<Rightarrow> Some (IString v))"
proof (intro conjI)
  show "InstallCommand (runPrepare_overrides env fl plan) =
     (case lastNonEmpty [InstallCommand plan, os_Getenv env ''COOLPACK_INSTALL_CMD'',
                         prepareInstallCmd fl] of
        None \<Rightarrow> [] | Some v \<Rightarrow> v)"
    by (subst overrides_form) (simp add: InstallCommand_CommandOverrides)
  show "BuildCommand (runPrepare_overrides env fl plan) =
     (case lastNonEmpty [BuildCommand plan, os_Getenv env ''COOLPACK_BUILD_CMD'',
                         prepareBuildCmd fl] of
        None \<Rightarrow> [] | Some v \<Rightarrow> v)"
    by (subst overrides_form) (simp add: BuildCommand_CommandOverrides)
  show "StartCommand (runPrepare_overrides env fl plan) =
     (case lastNonEmpty [StartCommand plan, os_Getenv env ''COOLPACK_START_CMD'',
                         prepareStartCmd fl] of
        None \<Rightarrow> [] | Some v \<Rightarrow> v)"
    by (subst overrides_form) (simp add: StartCommand_CommandOverrides)
  show "metadataOf (runPrepare_overrides env fl plan) ''static_server'' =
     (case lastNonEmpty [os_Getenv env ''COOLPACK_STATIC_SERVER'', prepareStaticServer fl] of
        None \<Rightarrow> metadataOf plan ''static_server'' | Some v \<Rightarrow> Some (IString v))"
    by (simp only: static_server_overrides static_server_StaticServer)
  show "metadataOf (runPrepare_overrides env fl plan) ''output_dir_override'' =
     (case lastNonEmpty [os_Getenv env ''COOLPACK_SPA_OUTPUT_DIR'', prepareOutputDir fl] of
        None \<Rightarrow> metadataOf plan ''output_dir_override'' | Some v \<Rightarrow> Some (IString v))"
    by (simp only: output_dir_overrides output_dir_OutputDir)
qed

theorem scalar_last_non_empty_wins_witness:
  "InstallCommand (runPrepare_overrides envScalars flagsScalars planScalars) = ''pnpm install''
   \<and> BuildCommand (runPrepare_overrides envScalars flagsScalars planScalars) = ''yarn build''
   \<and> StartCommand (runPrepare_overrides envScalars flagsScalars planScalars) = ''npm start''
   \<and> metadataOf (runPrepare_overrides envScalars flagsScalars planScalars) ''static_server''
       = Some (IString ''nginx'')
   \<and> metadataOf (runPrepare_overrides envScalars flagsScalars planScalars) ''output_dir_override''
       = Some (IString ''dist'')"
  using scalar_last_non_empty_wins [of envScalars flagsScalars planScalars]
  by (simp add: lastNonEmpty_def os_Getenv_def envScalars_def flagsScalars_def planScalars_def
        noFlags_def zeroPlan_def)

subsection \<open>Build environment\<close>

lemma parseEnvArgs_Nil_iff:
  "(parseEnvArgs env result args = []) =
   (result = [] \<and> (\<forall>arg \<in> set args. strings_Index arg (CHR ''='') = - 1 \<and> env arg = None))"
proof (induction args arbitrary: result)
  case Nil
  show ?case by simp
next
  case (Cons arg args)
  have u: "AList.update k v al \<noteq> []" for k v :: string and al
    by (cases al) auto
  show ?case
    by (cases "env arg") (auto simp: Cons.IH Let_def u)
qed

lemma prepareParseEnvVars_Nil_iff:
  "(prepareParseEnvVars env envArgs = []) =
   (\<forall>arg \<in> set envArgs. strings_Index arg (CHR ''='') = - 1 \<and> env arg = None)"
  by (simp add: prepareParseEnvVars_def parseEnvArgs_Nil_iff)

text \<open>
  Claim C7.  When the \<open>--build-env\<close> arguments yield at least one variable, the
  build environment of the resolved plan is exactly the map of these variables: no
  entry of the prior map survives unless the arguments give it again.  When they
  yield none, the build environment is the one of the base plan, unchanged.
\<close>

theorem build_env_replaced_or_kept:
  "(prepareParseEnvVars env (prepareBuildEnvs fl) \<noteq> [] \<longrightarrow>
      BuildEnv (runPrepare_overrides env fl plan) =
        Some (map_of (prepareParseEnvVars env (prepareBuildEnvs fl))))
   \<and> (prepareParseEnvVars env (prepareBuildEnvs fl) = [] \<longrightarrow>
      BuildEnv (runPrepare_overrides env fl plan) = BuildEnv plan)"
  by (subst (1 2) overrides_form) simp

theorem build_env_replaced_or_kept_witness:
  "prepareParseEnvVars envHome (prepareBuildEnvs flagsBuildEnv) =
     [(''NODE_ENV'', ''production''), (''HOME'', ''/root'')]
   \<and> BuildEnv (runPrepare_overrides envHome flagsBuildEnv planBuildEnv) =
       Some (map_of [(''NODE_ENV'', ''production''), (''HOME'', ''/root'')])
   \<and> prepareParseEnvVars envHome (prepareBuildEnvs flagsUnsetBuildEnv) = []
   \<and> BuildEnv (runPrepare_overrides envHome flagsUnsetBuildEnv planBuildEnv) =
       Some [''OLD'' \<mapsto> ''1'']"
proof -
  have a: "prepareParseEnvVars envHome (prepareBuildEnvs flagsBuildEnv) =
             [(''NODE_ENV'', ''production''), (''HOME'', ''/root'')]"
    by (simp add: prepareParseEnvVars_def flagsBuildEnv_def envHome_def Let_def)
  have b: "prepareParseEnvVars envHome (prepareBuildEnvs flagsUnsetBuildEnv) = []"
    by (simp add: prepareParseEnvVars_def flagsUnsetBuildEnv_def envHome_def Let_def)
  from build_env_replaced_or_kept [of envHome flagsBuildEnv planBuildEnv]
    build_env_replaced_or_kept [of envHome flagsUnsetBuildEnv planBuildEnv]
  show ?thesis
    by (simp add: a b planBuildEnv_def)
qed

subsection \<open>Idempotence\<close>

lemma CommandOverrides_idem:
  "prepareApplyCommandOverrides env (prepareApplyCommandOverrides env plan i b s) i b s =
   prepareApplyCommandOverrides env plan i b s"
  by (simp add: prepareApplyCommandOverrides_def Let_def)

lemma StaticServer_idem:
  "prepareApplyStaticServerSetting env (prepareApplyStaticServerSetting env plan v) v =
   prepareApplyStaticServerSetting env plan v"
  by (simp add: prepareApplyStaticServerSetting_def Let_def)

lemma SPA_idem:
  "prepareApplySPASetting env (prepareApplySPASetting env plan spa noSPA) spa noSPA =
   prepareApplySPASetting env plan spa noSPA"
  by (simp add: prepareApplySPASetting_def Let_def)

lemma OutputDir_idem:
  "prepareApplyOutputDirSetting env (prepareApplyOutputDirSetting env plan v) v =
   prepareApplyOutputDirSetting env plan v"
  by (simp add: prepareApplyOutputDirSetting_def Let_def)

lemma form_fix:
  assumes "r = p\<lparr>Metadata := Some m\<rparr>"
  shows "r\<lparr>Metadata := Some (metadataOf r)\<rparr> = r"
  using assms by simp

lemma CustomPackages_idem:
  "prepareApplyCustomPackages env (prepareApplyCustomPackages env plan pkgs) pkgs =
   prepareApplyCustomPackages env plan pkgs"
proof -
  let ?q = "prepareApplyCustomPackages env plan pkgs"
  let ?all = "customPackagesOf plan @ pkgs @ envPackages env"
  have c: "customPackagesOf ?q = keepFirst ?all"
    by (rule customPackagesOf_CustomPackages)
  have "set (pkgs @ envPackages env) \<subseteq> set ?all"
    by auto
  then have k: "keepFirst (customPackagesOf ?q @ pkgs @ envPackages env) = keepFirst ?all"
    unfolding c by (rule keepFirst_absorb)
  have e: "(customPackagesOf ?q @ pkgs @ envPackages env = []) = (?all = [])"
    unfolding c by (cases "pkgs @ envPackages env") (auto simp flip: set_empty)
  have "prepareApplyCustomPackages env ?q pkgs =
        (if ?all = [] then ?q\<lparr>Metadata := Some (metadataOf ?q)\<rparr>
         else ?q\<lparr>Metadata := Some ((metadataOf ?q)(''custom_packages'' \<mapsto>
                IStrings (keepFirst ?all)))\<rparr>)"
    by (subst prepareApplyCustomPackages_eq) (simp only: k e)
  also have "\<dots> = ?q\<lparr>Metadata := Some (metadataOf ?q)\<rparr>"
  proof (cases "?all = []")
    case True
    then show ?thesis by simp
  next
    case False
    then have "metadataOf ?q = (metadataOf plan)(''custom_packages'' \<mapsto>
                 IStrings (keepFirst ?all))"
      by (simp only: metadataOf_CustomPackages if_False)
    then have "(metadataOf ?q)(''custom_packages'' \<mapsto> IStrings (keepFirst ?all)) =
               metadataOf ?q"
      by simp
    with False show ?thesis by simp
  qed
  also have "\<dots> = ?q"
    by (rule form_fix [OF CustomPackages_form])
  finally show ?thesis .
qed

text \<open>The whole chain of overlays of \<open>runPrepare\<close> is idempotent as well.\<close>

lemma CommandOverrides_update:
  "prepareApplyCommandOverrides env (plan\<lparr>BuildEnv := b, Metadata := m\<rparr>) i c s =
   (prepareApplyCommandOverrides env plan i c s)\<lparr>BuildEnv := b, Metadata := m\<rparr>"
  by (simp add: prepareApplyCommandOverrides_def Let_def)

lemma metadataOf_overrides:
  "metadataOf (runPrepare_overrides env fl plan) k =
     (if k = ''static_server''
        then metadataOf (prepareApplyStaticServerSetting env plan (prepareStaticServer fl)) k
      else if k = ''is_spa''
        then metadataOf (prepareApplySPASetting env plan (prepareSPA fl) (prepareNoSPA fl)) k
      else if k = ''output_dir_override''
        then metadataOf (prepareApplyOutputDirSetting env plan (prepareOutputDir fl)) k
      else if k = ''custom_packages''
        then metadataOf (prepareApplyCustomPackages env plan (preparePackages fl)) k
      else metadataOf plan k)"
proof -
  have "k \<noteq> ''static_server'' \<Longrightarrow> k \<noteq> ''is_spa'' \<Longrightarrow> k \<noteq> ''output_dir_override'' \<Longrightarrow>
        k \<noteq> ''custom_packages'' \<Longrightarrow> metadataOf (runPrepare_overrides env fl plan) k = metadataOf plan k"
    by (simp add: runPrepare_overrides_def Let_def metadataOf_CustomPackages_other
          metadataOf_OutputDir_other metadataOf_SPA_other metadataOf_StaticServer_other)
  then show ?thesis
    by (simp add: static_server_overrides is_spa_overrides output_dir_overrides
          custom_packages_overrides)
qed

lemma custom_packages_key_cong:
  assumes "metadataOf q ''custom_packages'' = metadataOf r ''custom_packages''"
  shows "metadataOf (prepareApplyCustomPackages env q pkgs) ''custom_packages'' =
         metadataOf (prepareApplyCustomPackages env r pkgs) ''custom_packages''"
  using assms customPackagesOf_cong [OF assms]
  by (simp add: metadataOf_CustomPackages)

lemma metadataOf_overrides_idem:
  "metadataOf (runPrepare_overrides env fl (runPrepare_overrides env fl plan)) =
   metadataOf (runPrepare_overrides env fl plan)"
proof
  fix k
  let ?q = "runPrepare_overrides env fl plan"
  consider "k = ''static_server''" | "k = ''is_spa''" | "k = ''output_dir_override''"
    | "k = ''custom_packages''"
    | "k \<noteq> ''static_server''" "k \<noteq> ''is_spa''" "k \<noteq> ''output_dir_override''"
      "k \<noteq> ''custom_packages''"
    by blast
  then show "metadataOf (runPrepare_overrides env fl ?q) k = metadataOf ?q k"
  proof cases
    case 1
    then show ?thesis
      by (simp add: metadataOf_overrides [of env fl ?q] static_server_StaticServer
            static_server_overrides split: option.splits)
  next
    case 2
    then show ?thesis
      by (simp add: metadataOf_overrides [of env fl ?q] metadataOf_SPA is_spa_overrides)
  next
    case 3
    then show ?thesis
      by (simp add: metadataOf_overrides [of env fl ?q] output_dir_OutputDir
            output_dir_overrides split: option.splits)
  next
    case 4
    let ?r = "prepareApplyCustomPackages env plan (preparePackages fl)"
    have "metadataOf (prepareApplyCustomPackages env ?q (preparePackages fl)) ''custom_packages''
          = metadataOf (prepareApplyCustomPackages env ?r (preparePackages fl)) ''custom_packages''"
      by (rule custom_packages_key_cong) (rule custom_packages_overrides)
    also have "\<dots> = metadataOf ?r ''custom_packages''"
      by (simp only: CustomPackages_idem)
    also have "\<dots> = metadataOf ?q ''custom_packages''"
      by (simp only: custom_packages_overrides)
    finally show ?thesis
      using 4 by (simp add: metadataOf_overrides [of env fl ?q])
  next
    case 5
    then show ?thesis
      by (simp add: metadataOf_overrides)
  qed
qed

lemma overrides_idem:
  "runPrepare_overrides env fl (runPrepare_overrides env fl plan) =
   runPrepare_overrides env fl plan"
proof -
  let ?q = "runPrepare_overrides env fl plan"
  let ?parse = "prepareParseEnvVars env (prepareBuildEnvs fl)"
  let ?c = "\<lambda>p. prepareApplyCommandOverrides env p
              (prepareInstallCmd fl) (prepareBuildCmd fl) (prepareStartCmd fl)"
  let ?B = "\<lambda>p. if ?parse = [] then BuildEnv p else Some (map_of ?parse)"
  have q: "?q = (?c plan)\<lparr>BuildEnv := ?B plan, Metadata := Some (metadataOf ?q)\<rparr>"
    by (rule overrides_form)
  have b: "BuildEnv ?q = ?B plan"
    by (subst q) simp
  then have bb: "?B ?q = ?B plan"
    by simp
  have "?c ?q = ?c ((?c plan)\<lparr>BuildEnv := ?B plan, Metadata := Some (metadataOf ?q)\<rparr>)"
    by (rule arg_cong [OF q])
  also have "\<dots> = (?c plan)\<lparr>BuildEnv := ?B plan, Metadata := Some (metadataOf ?q)\<rparr>"
    by (simp only: CommandOverrides_update CommandOverrides_idem)
  finally have c: "?c ?q = (?c plan)\<lparr>BuildEnv := ?B plan, Metadata := Some (metadataOf ?q)\<rparr>" .
  have "runPrepare_overrides env fl ?q =
        (?c ?q)\<lparr>BuildEnv := ?B ?q,
                Metadata := Some (metadataOf (runPrepare_overrides env fl ?q))\<rparr>"
    by (rule overrides_form)
  also have "\<dots> = (?c ?q)\<lparr>BuildEnv := ?B plan, Metadata := Some (metadataOf ?q)\<rparr>"
    by (simp only: bb metadataOf_overrides_idem)
  also have "\<dots> = (?c plan)\<lparr>BuildEnv := ?B plan, Metadata := Some (metadataOf ?q)\<rparr>"
    by (subst c) simp
  also have "\<dots> = ?q"
    by (rule q [symmetric])
  finally show ?thesis .
qed

text \<open>
  Claim C9.  Every overlay stage is idempotent: with the same environment and the same
  flag values, a second application returns the plan that the first one returned.
  This holds for each of the five overlay functions and for the chain of overlays that
  \<open>runPrepare\<close> applies.
\<close>

theorem overlays_idempotent:
  "prepareApplyCommandOverrides env (prepareApplyCommandOverrides env plan i b s) i b s =
     prepareApplyCommandOverrides env plan i b s
   \<and> prepareApplyStaticServerSetting env (prepareApplyStaticServerSetting env plan v) v =
     prepareApplyStaticServerSetting env plan v
   \<and> prepareApplySPASetting env (prepareApplySPASetting env plan spa noSPA) spa noSPA =
     prepareApplySPASetting env plan spa noSPA
   \<and> prepareApplyOutputDirSetting env (prepareApplyOutputDirSetting env plan d) d =
     prepareApplyOutputDirSetting env plan d
   \<and> prepareApplyCustomPackages env (prepareApplyCustomPackages env plan pkgs) pkgs =
     prepareApplyCustomPackages env plan pkgs
   \<and> runPrepare_overrides env fl (runPrepare_overrides env fl plan) =
     runPrepare_overrides env fl plan"
  by (simp only: CommandOverrides_idem StaticServer_idem SPA_idem OutputDir_idem
        CustomPackages_idem overrides_idem)

theorem overlays_idempotent_witness:
  "metadataOf (prepareApplyCustomPackages envPkgs
      (prepareApplyCustomPackages envPkgs planPkgs [''git'']) [''git'']) ''custom_packages'' =
     Some (IStrings [''make'', ''git'', ''curl'', ''wget''])
   \<and> metadataOf (prepareApplySPASetting envSPA
      (prepareApplySPASetting envSPA zeroPlan False False) False False) ''is_spa'' =
     Some (IBool True)
   \<and> InstallCommand (prepareApplyCommandOverrides envScalars
      (prepareApplyCommandOverrides envScalars planScalars [] [] []) [] [] []) = ''yarn install''"
proof -
  have e: "envPackages envPkgs = [''curl'', ''wget'', ''make'']"
    by code_simp
  have c: "customPackagesOf planPkgs = [''make'', ''git'']"
    by code_simp
  have 1: "metadataOf (prepareApplyCustomPackages envPkgs planPkgs [''git'']) ''custom_packages'' =
           Some (IStrings [''make'', ''git'', ''curl'', ''wget''])"
    by (simp add: metadataOf_CustomPackages e c)
  have 2: "metadataOf (prepareApplySPASetting envSPA zeroPlan False False) ''is_spa'' =
           Some (IBool True)"
    by (simp add: metadataOf_SPA envSwitchedOn_def os_Getenv_def envSPA_def)
  have 3: "InstallCommand (prepareApplyCommandOverrides envScalars planScalars [] [] []) =
           ''yarn install''"
    by (simp add: InstallCommand_CommandOverrides lastNonEmpty_def os_Getenv_def
          envScalars_def)
  from overlays_idempotent [where env = envPkgs and plan = planPkgs and pkgs = "[''git'']"]
    overlays_idempotent [where env = envSPA and plan = zeroPlan and spa = False
      and noSPA = False]
    overlays_idempotent [where env = envScalars and plan = planScalars and i = "[]"
      and b = "[]" and s = "[]"]
  show ?thesis
    by (simp only: 1 2 3)
qed

subsection \<open>The run of the command\<close>

lemma basePlan_planFile:
  assumes "runPrepare_planFile w fl absPath \<noteq> []"
  shows "runPrepare_basePlan w fl absPath =
     ((if preparePlanFile fl = [] then [Stat (filepath_Join w absPath ''coolpack.json'')] else [])
        @ [Print (''Using plan file: '' @ runPrepare_planFile w fl absPath @ [CHR 0x0A]),
           ReadFile (runPrepare_planFile w fl absPath)],
      case prepareLoadPlanFromFile w (runPrepare_planFile w fl absPath) of
        Inl err \<Rightarrow> Inl (FailedToLoadPlanFile err)
      | Inr plan \<Rightarrow> Inr plan)"
  using assms by (simp add: runPrepare_basePlan_def Let_def split: sum.splits)

lemma basePlan_detect:
  assumes "runPrepare_planFile w fl absPath = []"
  shows "runPrepare_basePlan w fl absPath =
     ((if preparePlanFile fl = [] then [Stat (filepath_Join w absPath ''coolpack.json'')] else [])
        @ [Detect absPath],
      case detector_Detect w absPath of
        Inl err \<Rightarrow> Inl (DetectionFailed err)
      | Inr None \<Rightarrow> Inl NoSupportedApplicationDetected
      | Inr (Some plan) \<Rightarrow> Inr plan)"
  using assms by (simp add: runPrepare_basePlan_def Let_def split: sum.splits option.splits)

lemma runPrepare_base_error:
  assumes "filepath_Abs w (runPrepare_path fl args) = Inr absPath"
    and "os_Stat w absPath \<noteq> StatNotExist"
    and "runPrepare_basePlan w fl absPath = (evs, Inl err)"
  shows "runPrepare w fl args = (Stat absPath # evs, Some err)"
  using assms by (simp add: runPrepare_def)

lemma runPrepare_base_plan:
  assumes "filepath_Abs w (runPrepare_path fl args) = Inr absPath"
    and "os_Stat w absPath \<noteq> StatNotExist"
    and "runPrepare_basePlan w fl absPath = (evs, Inr plan)"
  shows "runPrepare w fl args =
     (Stat absPath # evs
        @ fst (runPrepare_generate w absPath (runPrepare_overrides (environment w) fl plan)),
      snd (runPrepare_generate w absPath (runPrepare_overrides (environment w) fl plan)))"
  using assms by (simp add: runPrepare_def split: prod.splits)

lemma generate_events:
  "fst (runPrepare_generate w absPath plan) =
     MkdirAll (filepath_Join w absPath ''.coolpack'') #
       (case os_MkdirAll w (filepath_Join w absPath ''.coolpack'') of
          Some err \<Rightarrow> []
        | None \<Rightarrow> Generate plan #
            (case generator_GenerateDockerfile w plan of
               Inl err \<Rightarrow> []
             | Inr dockerfile \<Rightarrow>
                 WriteFile (filepath_Join w (filepath_Join w absPath ''.coolpack'') ''Dockerfile'')
                   dockerfile #
                 (case os_WriteFile w
                         (filepath_Join w (filepath_Join w absPath ''.coolpack'') ''Dockerfile'')
                         dockerfile of
                    Some err \<Rightarrow> []
                  | None \<Rightarrow>
                      [Print (''Generated files in '' @ filepath_Join w absPath ''.coolpack''
                              @ '':'' @ [CHR 0x0A]),
                       Print (''  - Dockerfile'' @ [CHR 0x0A])])))"
  by (simp add: runPrepare_generate_def Let_def split: option.splits sum.splits)

lemma generate_result:
  "snd (runPrepare_generate w absPath plan) =
     (case os_MkdirAll w (filepath_Join w absPath ''.coolpack'') of
        Some err \<Rightarrow> Some (FailedToCreateDirectory err)
      | None \<Rightarrow>
          (case generator_GenerateDockerfile w plan of
             Inl err \<Rightarrow> Some (FailedToGenerateDockerfile err)
           | Inr dockerfile \<Rightarrow>
               (case os_WriteFile w
                       (filepath_Join w (filepath_Join w absPath ''.coolpack'') ''Dockerfile'')
                       dockerfile of
                  Some err \<Rightarrow> Some (FailedToWriteDockerfile err)
                | None \<Rightarrow> None)))"
  by (simp add: runPrepare_generate_def Let_def split: option.splits sum.splits)

lemma generate_no_Detect: "Detect p \<notin> set (fst (runPrepare_generate w absPath plan))"
  by (simp add: generate_events split: option.splits sum.splits)

lemma planFile_Nil_iff:
  assumes "filepath_Join w absPath ''coolpack.json'' \<noteq> []"
  shows "(runPrepare_planFile w fl absPath = []) =
         (preparePlanFile fl = [] \<and> os_Stat w (filepath_Join w absPath ''coolpack.json'') \<noteq> StatOk)"
  using assms by (auto simp: runPrepare_planFile_def Let_def)

lemma planFile_found:
  assumes "preparePlanFile fl = []"
    and "os_Stat w (filepath_Join w absPath ''coolpack.json'') = StatOk"
  shows "runPrepare_planFile w fl absPath = filepath_Join w absPath ''coolpack.json''"
  using assms by (simp add: runPrepare_planFile_def Let_def)

lemma planFile_not_found:
  assumes "preparePlanFile fl = []"
    and "os_Stat w (filepath_Join w absPath ''coolpack.json'') \<noteq> StatOk"
  shows "runPrepare_planFile w fl absPath = []"
  using assms by (simp add: runPrepare_planFile_def Let_def)

lemma runPrepare_parse_error:
  assumes "filepath_Abs w (runPrepare_path fl args) = Inr absPath"
    and "os_Stat w absPath \<noteq> StatNotExist"
    and "runPrepare_planFile w fl absPath \<noteq> []"
    and "os_ReadFile w (runPrepare_planFile w fl absPath) = Inr data"
    and "json_Unmarshal w data = Inl err"
  shows "runPrepare w fl args =
     (Stat absPath #
        (if preparePlanFile fl = [] then [Stat (filepath_Join w absPath ''coolpack.json'')] else [])
        @ [Print (''Using plan file: '' @ runPrepare_planFile w fl absPath @ [CHR 0x0A]),
           ReadFile (runPrepare_planFile w fl absPath)],
      Some (FailedToLoadPlanFile (FailedToParseJSON err)))"
proof -
  have "prepareLoadPlanFromFile w (runPrepare_planFile w fl absPath) = Inl (FailedToParseJSON err)"
    using assms(4,5) by (simp add: prepareLoadPlanFromFile_def)
  then have "runPrepare_basePlan w fl absPath =
     ((if preparePlanFile fl = [] then [Stat (filepath_Join w absPath ''coolpack.json'')] else [])
        @ [Print (''Using plan file: '' @ runPrepare_planFile w fl absPath @ [CHR 0x0A]),
           ReadFile (runPrepare_planFile w fl absPath)],
      Inl (FailedToLoadPlanFile (FailedToParseJSON err)))"
    by (simp add: basePlan_planFile [OF assms(3)])
  from runPrepare_base_error [OF assms(1,2) this] show ?thesis
    by simp
qed

text \<open>
  Claim C5.  When a plan file is given by \<open>--plan\<close> or found in the project root,
  it can be read and the JSON decoder rejects it, \<open>runPrepare\<close> returns the error
  "failed to load plan file" wrapping "failed to parse JSON" (a read failure is wrapped
  as "failed to read file" instead).  The run consists of the \<open>os.Stat\<close> calls, the
  message and the read: the detector, \<open>os.MkdirAll\<close>, the generator and
  \<open>os.WriteFile\<close> are not called.  No overlay plays a part: the outcome is the same
  under every environment and every value of the override flags.
\<close>

theorem parse_failure_aborts:
  assumes "filepath_Abs w (runPrepare_path fl args) = Inr absPath"
    and "os_Stat w absPath \<noteq> StatNotExist"
    and "runPrepare_planFile w fl absPath \<noteq> []"
    and "os_ReadFile w (runPrepare_planFile w fl absPath) = Inr data"
    and "json_Unmarshal w data = Inl err"
  shows "runPrepare w fl args =
     (Stat absPath #
        (if preparePlanFile fl = [] then [Stat (filepath_Join w absPath ''coolpack.json'')] else [])
        @ [Print (''Using plan file: '' @ runPrepare_planFile w fl absPath @ [CHR 0x0A]),
           ReadFile (runPrepare_planFile w fl absPath)],
      Some (FailedToLoadPlanFile (FailedToParseJSON err)))
   \<and> runPrepare (w\<lparr>environment := env'\<rparr>)
        (fl\<lparr>prepareBuildEnvs := be, prepareInstallCmd := ic, prepareBuildCmd := bc,
            prepareStartCmd := sc, prepareStaticServer := ss, prepareOutputDir := od,
            prepareSPA := spa, prepareNoSPA := nospa, preparePackages := pk\<rparr>) args =
       runPrepare w fl args"
proof -
  let ?w = "w\<lparr>environment := env'\<rparr>"
  let ?fl = "fl\<lparr>prepareBuildEnvs := be, prepareInstallCmd := ic, prepareBuildCmd := bc,
            prepareStartCmd := sc, prepareStaticServer := ss, prepareOutputDir := od,
            prepareSPA := spa, prepareNoSPA := nospa, preparePackages := pk\<rparr>"
  have p: "runPrepare_path ?fl args = runPrepare_path fl args"
    by (simp add: runPrepare_path_def)
  have f: "runPrepare_planFile ?w ?fl absPath = runPrepare_planFile w fl absPath"
    by (simp add: runPrepare_planFile_def Let_def)
  have 1: "filepath_Abs ?w (runPrepare_path ?fl args) = Inr absPath"
    using assms(1) by (simp add: p)
  have 2: "os_Stat ?w absPath \<noteq> StatNotExist"
    using assms(2) by simp
  have 3: "runPrepare_planFile ?w ?fl absPath \<noteq> []"
    unfolding f by (rule assms(3))
  have 4: "os_ReadFile ?w (runPrepare_planFile ?w ?fl absPath) = Inr data"
    unfolding f using assms(4) by simp
  have 5: "json_Unmarshal ?w data = Inl err"
    using assms(5) by simp
  show ?thesis
    by (simp only: runPrepare_parse_error [OF assms] runPrepare_parse_error [OF 1 2 3 4 5] f)
       simp
qed

theorem parse_failure_aborts_witness:
  "runPrepare brokenPlanFile noFlags [] =
     ([Stat ''/app'', Stat ''/app/coolpack.json'',
       Print (''Using plan file: /app/coolpack.json'' @ [CHR 0x0A]),
       ReadFile ''/app/coolpack.json''],
      Some (FailedToLoadPlanFile (FailedToParseJSON (LibraryError ''unexpected end of JSON input''))))
   \<and> runPrepare (brokenPlanFile\<lparr>environment := envBoth\<rparr>)
        (noFlags\<lparr>prepareBuildEnvs := [''A=1''], prepareInstallCmd := ''npm ci'',
            prepareBuildCmd := ''make'', prepareStartCmd := ''run'', prepareStaticServer := ''nginx'',
            prepareOutputDir := ''dist'', prepareSPA := True, prepareNoSPA := False,
            preparePackages := [''git'']\<rparr>) [] =
       runPrepare brokenPlanFile noFlags []"
proof -
  have 1: "filepath_Abs brokenPlanFile (runPrepare_path noFlags []) = Inr ''/app''"
    by (simp add: brokenPlanFile_def projectWorld_def runPrepare_path_def noFlags_def)
  have 2: "os_Stat brokenPlanFile ''/app'' \<noteq> StatNotExist"
    by (simp add: brokenPlanFile_def projectWorld_def)
  have f: "runPrepare_planFile brokenPlanFile noFlags ''/app'' = ''/app/coolpack.json''"
    by (simp add: brokenPlanFile_def projectWorld_def runPrepare_planFile_def noFlags_def)
  have 3: "runPrepare_planFile brokenPlanFile noFlags ''/app'' \<noteq> []"
    by (simp add: f)
  have 4: "os_ReadFile brokenPlanFile (runPrepare_planFile brokenPlanFile noFlags ''/app'') = Inr ''{''"
    by (simp add: f) (simp add: brokenPlanFile_def projectWorld_def)
  have 5: "json_Unmarshal brokenPlanFile ''{'' = Inl (LibraryError ''unexpected end of JSON input'')"
    by (simp add: brokenPlanFile_def projectWorld_def)
  have j: "filepath_Join brokenPlanFile ''/app'' ''coolpack.json'' = ''/app/coolpack.json''"
    by (simp add: brokenPlanFile_def projectWorld_def)
  have n: "preparePlanFile noFlags = []"
    by (simp add: noFlags_def)
  from parse_failure_aborts [OF 1 2 3 4 5, where env' = envBoth and be = "[''A=1'']"
      and ic = "''npm ci''" and bc = "''make''" and sc = "''run''" and ss = "''nginx''"
      and od = "''dist''" and spa = True and nospa = False and pk = "[''git'']"]
  show ?thesis
    by (simp add: f j n)
qed

text \<open>
  Claim C8.  On an existing directory, with no \<open>--plan\<close> flag and no coolpack.json
  found, a detector that finds no application (it returns no plan) makes
  \<open>runPrepare\<close> return the error "no supported application detected".  The run
  consists of the two \<open>os.Stat\<close> calls and the detection: no directory is created,
  the generator is not called and no file is written, whatever the overrides are.
\<close>

theorem nothing_detected_aborts:
  assumes "filepath_Abs w (runPrepare_path fl args) = Inr absPath"
    and "os_Stat w absPath \<noteq> StatNotExist"
    and "preparePlanFile fl = []"
    and "os_Stat w (filepath_Join w absPath ''coolpack.json'') \<noteq> StatOk"
    and "detector_Detect w absPath = Inr None"
  shows "runPrepare w fl args =
     ([Stat absPath, Stat (filepath_Join w absPath ''coolpack.json''), Detect absPath],
      Some NoSupportedApplicationDetected)"
proof -
  have "runPrepare_planFile w fl absPath = []"
    using assms(3,4) by (rule planFile_not_found)
  then have "runPrepare_basePlan w fl absPath =
     ([Stat (filepath_Join w absPath ''coolpack.json''), Detect absPath],
      Inl NoSupportedApplicationDetected)"
    using assms(3,5) by (simp add: basePlan_detect)
  from runPrepare_base_error [OF assms(1,2) this] show ?thesis
    by simp
qed

theorem nothing_detected_aborts_witness:
  "runPrepare emptyDirectory noFlags [] =
     ([Stat ''/app'', Stat ''/app/coolpack.json'', Detect ''/app''],
      Some NoSupportedApplicationDetected)"
proof -
  have 1: "filepath_Abs emptyDirectory (runPrepare_path noFlags []) = Inr ''/app''"
    by (simp add: emptyDirectory_def projectWorld_def runPrepare_path_def noFlags_def)
  have 2: "os_Stat emptyDirectory ''/app'' \<noteq> StatNotExist"
    by (simp add: emptyDirectory_def projectWorld_def)
  have 3: "preparePlanFile noFlags = []"
    by (simp add: noFlags_def)
  have j: "filepath_Join emptyDirectory ''/app'' ''coolpack.json'' = ''/app/coolpack.json''"
    by (simp add: emptyDirectory_def projectWorld_def)
  have 4: "os_Stat emptyDirectory (filepath_Join emptyDirectory ''/app'' ''coolpack.json'') \<noteq> StatOk"
    by (simp add: emptyDirectory_def projectWorld_def)
  have 5: "detector_Detect emptyDirectory ''/app'' = Inr None"
    by (simp add: emptyDirectory_def projectWorld_def)
  from nothing_detected_aborts [OF 1 2 3 4 5] show ?thesis
    by (simp add: j)
qed

lemma runPrepare_events_planFile:
  assumes "filepath_Abs w (runPrepare_path fl args) = Inr absPath"
    and "os_Stat w absPath \<noteq> StatNotExist"
    and "runPrepare_planFile w fl absPath \<noteq> []"
  shows "ReadFile (runPrepare_planFile w fl absPath) \<in> set (fst (runPrepare w fl args))
         \<and> (\<forall>p. Detect p \<notin> set (fst (runPrepare w fl args)))"
proof (cases "prepareLoadPlanFromFile w (runPrepare_planFile w fl absPath)")
  case (Inl err)
  then have "runPrepare_basePlan w fl absPath =
     ((if preparePlanFile fl = [] then [Stat (filepath_Join w absPath ''coolpack.json'')] else [])
        @ [Print (''Using plan file: '' @ runPrepare_planFile w fl absPath @ [CHR 0x0A]),
           ReadFile (runPrepare_planFile w fl absPath)],
      Inl (FailedToLoadPlanFile err))"
    by (simp add: basePlan_planFile [OF assms(3)])
  from runPrepare_base_error [OF assms(1,2) this] show ?thesis
    by simp
next
  case (Inr plan)
  then have "runPrepare_basePlan w fl absPath =
     ((if preparePlanFile fl = [] then [Stat (filepath_Join w absPath ''coolpack.json'')] else [])
        @ [Print (''Using plan file: '' @ runPrepare_planFile w fl absPath @ [CHR 0x0A]),
           ReadFile (runPrepare_planFile w fl absPath)],
      Inr plan)"
    by (simp add: basePlan_planFile [OF assms(3)])
  from runPrepare_base_plan [OF assms(1,2) this] show ?thesis
    by (simp add: generate_no_Detect)
qed

lemma runPrepare_events_detect:
  assumes "filepath_Abs w (runPrepare_path fl args) = Inr absPath"
    and "os_Stat w absPath \<noteq> StatNotExist"
    and "runPrepare_planFile w fl absPath = []"
  shows "Detect absPath \<in> set (fst (runPrepare w fl args))"
proof (cases "runPrepare_basePlan w fl absPath")
  case (Pair evs res)
  with basePlan_detect [OF assms(3)] have d: "Detect absPath \<in> set evs"
    by auto
  show ?thesis
  proof (cases res)
    case (Inl err)
    with Pair runPrepare_base_error [OF assms(1,2)] d show ?thesis by simp
  next
    case (Inr plan)
    with Pair runPrepare_base_plan [OF assms(1,2)] d show ?thesis by simp
  qed
qed

lemma basePlan_found:
  assumes "filepath_Join w absPath ''coolpack.json'' \<noteq> []"
    and "preparePlanFile fl = []"
    and "os_Stat w (filepath_Join w absPath ''coolpack.json'') = StatOk"
  shows "runPrepare_basePlan w fl absPath =
     ([Stat (filepath_Join w absPath ''coolpack.json''),
       Print (''Using plan file: '' @ filepath_Join w absPath ''coolpack.json'' @ [CHR 0x0A]),
       ReadFile (filepath_Join w absPath ''coolpack.json'')],
      case os_ReadFile w (filepath_Join w absPath ''coolpack.json'') of
        Inl err \<Rightarrow> Inl (FailedToLoadPlanFile (FailedToReadFile err))
      | Inr data \<Rightarrow>
          (case json_Unmarshal w data of
             Inl err \<Rightarrow> Inl (FailedToLoadPlanFile (FailedToParseJSON err))
           | Inr plan \<Rightarrow> Inr plan))"
proof -
  have f: "runPrepare_planFile w fl absPath = filepath_Join w absPath ''coolpack.json''"
    using assms(2,3) by (rule planFile_found)
  with assms(1) have n: "runPrepare_planFile w fl absPath \<noteq> []"
    by simp
  show ?thesis
    unfolding basePlan_planFile [OF n] f
    using assms(2) by (simp add: prepareLoadPlanFromFile_def split: sum.splits)
qed

text \<open>
  Claim C10.  On an existing directory: when \<open>--plan\<close> is not given and
  \<open>os.Stat\<close> finds coolpack.json in the project root, that file is read and the
  detector is not called.  When the file holds data that the JSON decoder turns into a
  plan, this plan is the base plan: the overlays are applied to it, and once the output
  directory is created the generator is called on the result.  When the file cannot be
  read or its data is rejected, the run ends with "failed to load plan file" wrapping the
  cause.  The detector is called exactly when \<open>--plan\<close> is not given and
  coolpack.json is not found.  (\<open>filepath.Join\<close> never returns the empty string
  for a non-empty element, which is the third assumption.)
\<close>

theorem plan_file_before_detection:
  assumes "filepath_Abs w (runPrepare_path fl args) = Inr absPath"
    and "os_Stat w absPath \<noteq> StatNotExist"
    and "filepath_Join w absPath ''coolpack.json'' \<noteq> []"
  shows "(preparePlanFile fl = [] \<and> os_Stat w (filepath_Join w absPath ''coolpack.json'') = StatOk
          \<longrightarrow> ReadFile (filepath_Join w absPath ''coolpack.json'')
                   \<in> set (fst (runPrepare w fl args))
              \<and> (\<forall>p. Detect p \<notin> set (fst (runPrepare w fl args)))
              \<and> (os_ReadFile w (filepath_Join w absPath ''coolpack.json'') = Inr data
                   \<and> json_Unmarshal w data = Inr plan
                  \<longrightarrow> runPrepare_basePlan w fl absPath =
                        ([Stat (filepath_Join w absPath ''coolpack.json''),
                          Print (''Using plan file: ''
                                 @ filepath_Join w absPath ''coolpack.json'' @ [CHR 0x0A]),
                          ReadFile (filepath_Join w absPath ''coolpack.json'')],
                         Inr plan)
                      \<and> runPrepare w fl args =
                        ([Stat absPath,
                          Stat (filepath_Join w absPath ''coolpack.json''),
                          Print (''Using plan file: ''
                                 @ filepath_Join w absPath ''coolpack.json'' @ [CHR 0x0A]),
                          ReadFile (filepath_Join w absPath ''coolpack.json'')]
                         @ fst (runPrepare_generate w absPath
                                  (runPrepare_overrides (environment w) fl plan)),
                         snd (runPrepare_generate w absPath
                                (runPrepare_overrides (environment w) fl plan)))
                      \<and> (os_MkdirAll w (filepath_Join w absPath ''.coolpack'') = None
                          \<longrightarrow> Generate (runPrepare_overrides (environment w) fl plan)
                                \<in> set (fst (runPrepare w fl args))))
              \<and> (os_ReadFile w (filepath_Join w absPath ''coolpack.json'') = Inl err
                  \<longrightarrow> runPrepare w fl args =
                        ([Stat absPath,
                          Stat (filepath_Join w absPath ''coolpack.json''),
                          Print (''Using plan file: ''
                                 @ filepath_Join w absPath ''coolpack.json'' @ [CHR 0x0A]),
                          ReadFile (filepath_Join w absPath ''coolpack.json'')],
                         Some (FailedToLoadPlanFile (FailedToReadFile err))))
              \<and> (os_ReadFile w (filepath_Join w absPath ''coolpack.json'') = Inr data
                   \<and> json_Unmarshal w data = Inl err
                  \<longrightarrow> runPrepare w fl args =
                        ([Stat absPath,
                          Stat (filepath_Join w absPath ''coolpack.json''),
                          Print (''Using plan file: ''
                                 @ filepath_Join w absPath ''coolpack.json'' @ [CHR 0x0A]),
                          ReadFile (filepath_Join w absPath ''coolpack.json'')],
                         Some (FailedToLoadPlanFile (FailedToParseJSON err)))))
         \<and> ((\<exists>p. Detect p \<in> set (fst (runPrepare w fl args))) =
              (preparePlanFile fl = []
               \<and> os_Stat w (filepath_Join w absPath ''coolpack.json'') \<noteq> StatOk))"
proof (intro conjI impI)
  let ?D = "filepath_Join w absPath ''coolpack.json''"
  let ?evs = "[Stat ?D, Print (''Using plan file: '' @ ?D @ [CHR 0x0A]), ReadFile ?D]"
  assume a: "preparePlanFile fl = [] \<and> os_Stat w ?D = StatOk"
  then have f: "runPrepare_planFile w fl absPath = ?D"
    by (simp add: planFile_found)
  with assms(3) have n: "runPrepare_planFile w fl absPath \<noteq> []"
    by simp
  note b = basePlan_found [OF assms(3) conjunct1 [OF a] conjunct2 [OF a]]
  from runPrepare_events_planFile [OF assms(1,2) n]
  show "ReadFile ?D \<in> set (fst (runPrepare w fl args))"
    and "\<forall>p. Detect p \<notin> set (fst (runPrepare w fl args))"
    by (simp_all add: f)
  {
    assume r: "os_ReadFile w ?D = Inr data \<and> json_Unmarshal w data = Inr plan"
    then show bp: "runPrepare_basePlan w fl absPath = (?evs, Inr plan)"
      by (simp add: b)
    from runPrepare_base_plan [OF assms(1,2) bp]
    show run: "runPrepare w fl args =
      ([Stat absPath, Stat ?D, Print (''Using plan file: '' @ ?D @ [CHR 0x0A]), ReadFile ?D]
         @ fst (runPrepare_generate w absPath (runPrepare_overrides (environment w) fl plan)),
       snd (runPrepare_generate w absPath (runPrepare_overrides (environment w) fl plan)))"
      by simp
    assume "os_MkdirAll w (filepath_Join w absPath ''.coolpack'') = None"
    then show "Generate (runPrepare_overrides (environment w) fl plan)
                 \<in> set (fst (runPrepare w fl args))"
      by (simp add: run generate_events)
  }
  {
    assume "os_ReadFile w ?D = Inl err"
    then have "runPrepare_basePlan w fl absPath =
               (?evs, Inl (FailedToLoadPlanFile (FailedToReadFile err)))"
      by (simp add: b)
    from runPrepare_base_error [OF assms(1,2) this]
    show "runPrepare w fl args =
      ([Stat absPath, Stat ?D, Print (''Using plan file: '' @ ?D @ [CHR 0x0A]), ReadFile ?D],
       Some (FailedToLoadPlanFile (FailedToReadFile err)))"
      by simp
  }
  {
    assume "os_ReadFile w ?D = Inr data \<and> json_Unmarshal w data = Inl err"
    then have "runPrepare_basePlan w fl absPath =
               (?evs, Inl (FailedToLoadPlanFile (FailedToParseJSON err)))"
      by (simp add: b)
    from runPrepare_base_error [OF assms(1,2) this]
    show "runPrepare w fl args =
      ([Stat absPath, Stat ?D, Print (''Using plan file: '' @ ?D @ [CHR 0x0A]), ReadFile ?D],
       Some (FailedToLoadPlanFile (FailedToParseJSON err)))"
      by simp
  }
next
  show "(\<exists>p. Detect p \<in> set (fst (runPrepare w fl args))) =
              (preparePlanFile fl = []
               \<and> os_Stat w (filepath_Join w absPath ''coolpack.json'') \<noteq> StatOk)"
  proof (cases "runPrepare_planFile w fl absPath = []")
    case True
    with runPrepare_events_detect [OF assms(1,2)] planFile_Nil_iff [OF assms(3), of fl]
    show ?thesis by blast
  next
    case False
    with runPrepare_events_planFile [OF assms(1,2)] planFile_Nil_iff [OF assms(3), of fl]
    show ?thesis by blast
  qed
qed

lemma overrides_startPlan:
  "runPrepare_overrides Map.empty noFlags startPlan = startPlan\<lparr>Metadata := Some Map.empty\<rparr>"
  by (simp add: runPrepare_overrides_def prepareApplyCommandOverrides_def
        prepareApplyStaticServerSetting_def prepareApplySPASetting_def
        prepareApplyOutputDirSetting_def prepareApplyCustomPackages_def
        prepareParseEnvVars_def os_Getenv_def noFlags_def startPlan_def zeroPlan_def Let_def)

theorem plan_file_before_detection_witness:
  "runPrepare_basePlan startPlanFile noFlags ''/app'' =
     ([Stat ''/app/coolpack.json'',
       Print (''Using plan file: /app/coolpack.json'' @ [CHR 0x0A]),
       ReadFile ''/app/coolpack.json''],
      Inr startPlan)
   \<and> Generate (startPlan\<lparr>Metadata := Some Map.empty\<rparr>)
       \<in> set (fst (runPrepare startPlanFile noFlags []))
   \<and> ReadFile ''/app/coolpack.json'' \<in> set (fst (runPrepare startPlanFile noFlags []))
   \<and> (\<forall>p. Detect p \<notin> set (fst (runPrepare startPlanFile noFlags [])))
   \<and> runPrepare unreadablePlanFile noFlags [] =
       ([Stat ''/app'', Stat ''/app/coolpack.json'',
         Print (''Using plan file: /app/coolpack.json'' @ [CHR 0x0A]),
         ReadFile ''/app/coolpack.json''],
        Some (FailedToLoadPlanFile (FailedToReadFile (LibraryError ''is a directory''))))
   \<and> runPrepare brokenPlanFile noFlags [] =
       ([Stat ''/app'', Stat ''/app/coolpack.json'',
         Print (''Using plan file: /app/coolpack.json'' @ [CHR 0x0A]),
         ReadFile ''/app/coolpack.json''],
        Some (FailedToLoadPlanFile
               (FailedToParseJSON (LibraryError ''unexpected end of JSON input''))))
   \<and> (\<exists>p. Detect p \<in> set (fst (runPrepare emptyDirectory noFlags [])))"
proof -
  have n: "preparePlanFile noFlags = []"
    by (simp add: noFlags_def)
  have p: "runPrepare_path noFlags [] = ''.''"
    by (simp add: runPrepare_path_def noFlags_def)
  have a1: "filepath_Abs startPlanFile (runPrepare_path noFlags []) = Inr ''/app''"
    by (simp add: p) (simp add: startPlanFile_def projectWorld_def)
  have a2: "os_Stat startPlanFile ''/app'' \<noteq> StatNotExist"
    by (simp add: startPlanFile_def projectWorld_def)
  have aj: "filepath_Join startPlanFile ''/app'' ''coolpack.json'' = ''/app/coolpack.json''"
    by (simp add: startPlanFile_def projectWorld_def)
  have a3: "filepath_Join startPlanFile ''/app'' ''coolpack.json'' \<noteq> []"
    by (simp add: aj)
  have as: "os_Stat startPlanFile ''/app/coolpack.json'' = StatOk"
    by (simp add: startPlanFile_def projectWorld_def)
  have ar: "os_ReadFile startPlanFile ''/app/coolpack.json'' = Inr startPlanJSON"
    by (simp add: startPlanFile_def projectWorld_def)
  have au: "json_Unmarshal startPlanFile startPlanJSON = Inr startPlan"
    by (simp add: startPlanFile_def projectWorld_def)
  have am: "os_MkdirAll startPlanFile (filepath_Join startPlanFile ''/app'' ''.coolpack'') = None"
    by (simp add: startPlanFile_def projectWorld_def)
  have ae: "environment startPlanFile = Map.empty"
    by (simp add: startPlanFile_def projectWorld_def)
  have ag: "generator_GenerateDockerfile startPlanFile plan =
            Inl (LibraryError ''no runtime strategy'')" for plan
    by (simp add: startPlanFile_def projectWorld_def)
  have b1: "filepath_Abs unreadablePlanFile (runPrepare_path noFlags []) = Inr ''/app''"
    by (simp add: p) (simp add: unreadablePlanFile_def projectWorld_def)
  have b2: "os_Stat unreadablePlanFile ''/app'' \<noteq> StatNotExist"
    by (simp add: unreadablePlanFile_def projectWorld_def)
  have bj: "filepath_Join unreadablePlanFile ''/app'' ''coolpack.json'' = ''/app/coolpack.json''"
    by (simp add: unreadablePlanFile_def projectWorld_def)
  have b3: "filepath_Join unreadablePlanFile ''/app'' ''coolpack.json'' \<noteq> []"
    by (simp add: bj)
  have bs: "os_Stat unreadablePlanFile ''/app/coolpack.json'' = StatOk"
    by (simp add: unreadablePlanFile_def projectWorld_def)
  have br: "os_ReadFile unreadablePlanFile ''/app/coolpack.json'' =
            Inl (LibraryError ''is a directory'')"
    by (simp add: unreadablePlanFile_def projectWorld_def)
  have c1: "filepath_Abs brokenPlanFile (runPrepare_path noFlags []) = Inr ''/app''"
    by (simp add: p) (simp add: brokenPlanFile_def projectWorld_def)
  have c2: "os_Stat brokenPlanFile ''/app'' \<noteq> StatNotExist"
    by (simp add: brokenPlanFile_def projectWorld_def)
  have cj: "filepath_Join brokenPlanFile ''/app'' ''coolpack.json'' = ''/app/coolpack.json''"
    by (simp add: brokenPlanFile_def projectWorld_def)
  have c3: "filepath_Join brokenPlanFile ''/app'' ''coolpack.json'' \<noteq> []"
    by (simp add: cj)
  have cs: "os_Stat brokenPlanFile ''/app/coolpack.json'' = StatOk"
    by (simp add: brokenPlanFile_def projectWorld_def)
  have cr: "os_ReadFile brokenPlanFile ''/app/coolpack.json'' = Inr ''{''"
    by (simp add: brokenPlanFile_def projectWorld_def)
  have cu: "json_Unmarshal brokenPlanFile ''{'' =
            Inl (LibraryError ''unexpected end of JSON input'')"
    by (simp add: brokenPlanFile_def projectWorld_def)
  have d1: "filepath_Abs emptyDirectory (runPrepare_path noFlags []) = Inr ''/app''"
    by (simp add: p) (simp add: emptyDirectory_def projectWorld_def)
  have d2: "os_Stat emptyDirectory ''/app'' \<noteq> StatNotExist"
    by (simp add: emptyDirectory_def projectWorld_def)
  have dj: "filepath_Join emptyDirectory ''/app'' ''coolpack.json'' = ''/app/coolpack.json''"
    by (simp add: emptyDirectory_def projectWorld_def)
  have d3: "filepath_Join emptyDirectory ''/app'' ''coolpack.json'' \<noteq> []"
    by (simp add: dj)
  have ds: "os_Stat emptyDirectory ''/app/coolpack.json'' \<noteq> StatOk"
    by (simp add: emptyDirectory_def projectWorld_def)
  from plan_file_before_detection [OF a1 a2 a3, where data = startPlanJSON and plan = startPlan]
  have A: "runPrepare_basePlan startPlanFile noFlags ''/app'' =
     ([Stat ''/app/coolpack.json'',
       Print (''Using plan file: /app/coolpack.json'' @ [CHR 0x0A]),
       ReadFile ''/app/coolpack.json''],
      Inr startPlan)
   \<and> Generate (startPlan\<lparr>Metadata := Some Map.empty\<rparr>)
       \<in> set (fst (runPrepare startPlanFile noFlags []))
   \<and> ReadFile ''/app/coolpack.json'' \<in> set (fst (runPrepare startPlanFile noFlags []))
   \<and> (\<forall>p. Detect p \<notin> set (fst (runPrepare startPlanFile noFlags [])))"
    by (simp add: n aj as ar au am ae ag overrides_startPlan generate_events)
  from plan_file_before_detection [OF b1 b2 b3,
      where err = "LibraryError ''is a directory''"]
  have B: "runPrepare unreadablePlanFile noFlags [] =
       ([Stat ''/app'', Stat ''/app/coolpack.json'',
         Print (''Using plan file: /app/coolpack.json'' @ [CHR 0x0A]),
         ReadFile ''/app/coolpack.json''],
        Some (FailedToLoadPlanFile (FailedToReadFile (LibraryError ''is a directory''))))"
    by (simp add: n bj bs br)
  from plan_file_before_detection [OF c1 c2 c3, where data = "''{''"
      and err = "LibraryError ''unexpected end of JSON input''"]
  have C: "runPrepare brokenPlanFile noFlags [] =
       ([Stat ''/app'', Stat ''/app/coolpack.json'',
         Print (''Using plan file: /app/coolpack.json'' @ [CHR 0x0A]),
         ReadFile ''/app/coolpack.json''],
        Some (FailedToLoadPlanFile
               (FailedToParseJSON (LibraryError ''unexpected end of JSON input''))))"
    by (simp add: n cj cs cr cu)
  from plan_file_before_detection [OF d1 d2 d3]
  have D: "\<exists>p. Detect p \<in> set (fst (runPrepare emptyDirectory noFlags []))"
    by (simp add: n dj ds)
  from A B C D show ?thesis
    by blast
qed

lemma overrides_zeroPlan:
  "runPrepare_overrides Map.empty noFlags zeroPlan = zeroPlan\<lparr>Metadata := Some Map.empty\<rparr>"
  by (simp add: runPrepare_overrides_def prepareApplyCommandOverrides_def
        prepareApplyStaticServerSetting_def prepareApplySPASetting_def
        prepareApplyOutputDirSetting_def prepareApplyCustomPackages_def
        prepareParseEnvVars_def os_Getenv_def noFlags_def zeroPlan_def Let_def)

text \<open>
  Claim C4, as the code has it.  \<open>runPrepare\<close> has no validation step between the
  overlays and the generator: once the base plan is there and the output directory is
  created, the generator is called on the resolved plan, whatever its commands and its
  language are, and the error of the run is the one of the generator or of the write.
\<close>

theorem generator_runs_without_validation:
  assumes "filepath_Abs w (runPrepare_path fl args) = Inr absPath"
    and "os_Stat w absPath \<noteq> StatNotExist"
    and "runPrepare_basePlan w fl absPath = (evs, Inr plan)"
    and "os_MkdirAll w (filepath_Join w absPath ''.coolpack'') = None"
  shows "Generate (runPrepare_overrides (environment w) fl plan)
           \<in> set (fst (runPrepare w fl args))
         \<and> snd (runPrepare w fl args) =
             (case generator_GenerateDockerfile w
                     (runPrepare_overrides (environment w) fl plan) of
                Inl err \<Rightarrow> Some (FailedToGenerateDockerfile err)
              | Inr dockerfile \<Rightarrow>
                  (case os_WriteFile w
                          (filepath_Join w (filepath_Join w absPath ''.coolpack'') ''Dockerfile'')
                          dockerfile of
                     Some err \<Rightarrow> Some (FailedToWriteDockerfile err)
                   | None \<Rightarrow> None))"
  by (simp add: runPrepare_base_plan [OF assms(1,2,3)] generate_events generate_result
        assms(4))

theorem generator_runs_without_validation_witness:
  "Generate (zeroPlan\<lparr>Metadata := Some Map.empty\<rparr>)
     \<in> set (fst (runPrepare emptyPlanFile noFlags []))
   \<and> snd (runPrepare emptyPlanFile noFlags []) =
       Some (FailedToGenerateDockerfile (LibraryError ''no runtime strategy''))"
proof -
  have p: "runPrepare_path noFlags [] = ''.''"
    by (simp add: runPrepare_path_def noFlags_def)
  have 1: "filepath_Abs emptyPlanFile (runPrepare_path noFlags []) = Inr ''/app''"
    by (simp add: p) (simp add: emptyPlanFile_def projectWorld_def)
  have 2: "os_Stat emptyPlanFile ''/app'' \<noteq> StatNotExist"
    by (simp add: emptyPlanFile_def projectWorld_def)
  have 3: "runPrepare_basePlan emptyPlanFile noFlags ''/app'' =
     ([Stat ''/app/coolpack.json'',
       Print (''Using plan file: /app/coolpack.json'' @ [CHR 0x0A]),
       ReadFile ''/app/coolpack.json''],
      Inr zeroPlan)"
    by (simp add: runPrepare_basePlan_def runPrepare_planFile_def prepareLoadPlanFromFile_def
          emptyPlanFile_def projectWorld_def noFlags_def Let_def)
  have 4: "os_MkdirAll emptyPlanFile (filepath_Join emptyPlanFile ''/app'' ''.coolpack'') = None"
    by (simp add: emptyPlanFile_def projectWorld_def)
  have e: "environment emptyPlanFile = Map.empty"
    by (simp add: emptyPlanFile_def projectWorld_def)
  have g: "generator_GenerateDockerfile emptyPlanFile plan =
           Inl (LibraryError ''no runtime strategy'')" for plan
    by (simp add: emptyPlanFile_def projectWorld_def)
  from generator_runs_without_validation [OF 1 2 3 4] show ?thesis
    by (simp add: e g overrides_zeroPlan)
qed

text \<open>
  Claim C4 as it is stated fails: a plan file holding \<open>{}\<close> gives a resolved plan
  with no command and an empty language, which the specification calls invalid; the
  run creates the output directory and calls the generator on this plan, and the error
  it returns is the generator's.
\<close>

theorem invalid_plan_reaches_generator:
  "runPrepare_overrides (environment emptyPlanFile) noFlags zeroPlan =
     zeroPlan\<lparr>Metadata := Some Map.empty\<rparr>
   \<and> \<not> spec_planValid (zeroPlan\<lparr>Metadata := Some Map.empty\<rparr>)
   \<and> runPrepare emptyPlanFile noFlags [] =
     ([Stat ''/app'', Stat ''/app/coolpack.json'',
       Print (''Using plan file: /app/coolpack.json'' @ [CHR 0x0A]),
       ReadFile ''/app/coolpack.json'',
       MkdirAll ''/app/.coolpack'',
       Generate (zeroPlan\<lparr>Metadata := Some Map.empty\<rparr>)],
      Some (FailedToGenerateDockerfile (LibraryError ''no runtime strategy'')))"
proof -
  have p: "runPrepare_path noFlags [] = ''.''"
    by (simp add: runPrepare_path_def noFlags_def)
  have 1: "filepath_Abs emptyPlanFile (runPrepare_path noFlags []) = Inr ''/app''"
    by (simp add: p) (simp add: emptyPlanFile_def projectWorld_def)
  have 2: "os_Stat emptyPlanFile ''/app'' \<noteq> StatNotExist"
    by (simp add: emptyPlanFile_def projectWorld_def)
  have 3: "runPrepare_basePlan emptyPlanFile noFlags ''/app'' =
     ([Stat ''/app/coolpack.json'',
       Print (''Using plan file: /app/coolpack.json'' @ [CHR 0x0A]),
       ReadFile ''/app/coolpack.json''],
      Inr zeroPlan)"
    by (simp add: runPrepare_basePlan_def runPrepare_planFile_def prepareLoadPlanFromFile_def
          emptyPlanFile_def projectWorld_def noFlags_def Let_def)
  have e: "environment emptyPlanFile = Map.empty"
    by (simp add: emptyPlanFile_def projectWorld_def)
  have g: "runPrepare_generate emptyPlanFile ''/app'' plan =
           ([MkdirAll ''/app/.coolpack'', Generate plan],
            Some (FailedToGenerateDockerfile (LibraryError ''no runtime strategy'')))" for plan
    by (simp add: runPrepare_generate_def emptyPlanFile_def projectWorld_def Let_def)
  have v: "\<not> spec_planValid (zeroPlan\<lparr>Metadata := Some Map.empty\<rparr>)"
    by (simp add: spec_planValid_def zeroPlan_def)
  from runPrepare_base_plan [OF 1 2 3] v show ?thesis
    by (simp add: e g overrides_zeroPlan)
qed

end
